theory Spec2Isabelle
  imports Complex_Main "HOL-Library.Multiset"
begin

section \<open>Arrays, the caller's memory and the kernel library\<close>

text \<open>
  The module \<^verbatim>\<open>scipy/linalg/basic.py\<close> is a dispatch layer over LAPACK: it validates
  its array arguments, decides which buffers a kernel may overwrite, calls one kernel and
  turns the kernel's integer status into a result or an exception.

  Arrays are one- or two-dimensional (the shapes the module documents for its arguments).
  A two-dimensional array carries its column count, so that an array with no rows still
  has a shape, and its rows. Elements are complex numbers; a real array is one whose
  elements have imaginary part zero. Elements are exact: NaN, infinities and rounding are
  not represented.
\<close>

datatype ndarray = Arr1 "complex list" | Arr2 nat "complex list list"

fun shape :: "ndarray \<Rightarrow> nat list" where
  "shape (Arr1 xs) = [length xs]"
| "shape (Arr2 nc rs) = [length rs, nc]"

text \<open>
  Python exceptions are values. A message built with \<^verbatim>\<open>%\<close> keeps its template
  and its arguments apart.
\<close>

datatype fmt_arg = IntArg int | StrArg string

datatype error =
    ValueError string "fmt_arg list"
  | LinAlgError string "fmt_arg list"
  | UnboundLocalError string
  | AttributeError string
  | IndexError string
  | KeyError string

text \<open>
  The caller's memory is a store of array buffers; an address is an index into it. An
  argument of a public function is either an array object that lives in the store, or any
  other array-like Python value (a list, a tuple), given by the array it converts to.
\<close>

type_synonym addr = nat

datatype array_like = NdRef addr | PySeq ndarray

text \<open>
  A view \<^verbatim>\<open>a[row, lo:hi]\<close> of a two-dimensional buffer shares the buffer's memory.
\<close>

record view =
  base :: addr
  vrow :: nat
  lo :: nat
  hi :: nat

text \<open>
  What the module asks of the kernel library is recorded in order: each
  \<^verbatim>\<open>get_lapack_funcs\<close> lookup with the names it asks for, and each kernel call with
  the buffers and the overwrite permissions it passes.
\<close>

datatype kcall =
    Posv addr addr bool bool bool
  | Gesv addr addr bool bool
  | Gtsv view view view array_like bool bool bool bool
  | Gbsv nat nat addr ndarray addr bool bool
  | Ptsv "real list" "complex list" addr bool bool bool
  | Pbsv addr addr bool bool bool
  | Getrf addr bool
  | Getri_lwork nat
  | Getri ndarray "int list" int bool
  | Gelss_query addr addr
  | Gelss addr addr "real option" int bool bool

datatype event = Lookup "string list" | Call kcall

record world =
  heap :: "ndarray list"
  events :: "event list"

definition log_event :: "event \<Rightarrow> world \<Rightarrow> world" where
  "log_event e w = w\<lparr>events := events w @ [e]\<rparr>"

text \<open>
  The kernels themselves are outside the module. Each is a parameter: a function from the
  values it is given to the values it returns, the last of which is its status
  \<^verbatim>\<open>info\<close>. Nothing is assumed about what a kernel computes.
\<close>

record lapack =
  posv :: "ndarray \<Rightarrow> ndarray \<Rightarrow> bool \<Rightarrow> ndarray \<times> ndarray \<times> int"
  gesv :: "ndarray \<Rightarrow> ndarray \<Rightarrow> ndarray \<times> int list \<times> ndarray \<times> int"
  gtsv :: "complex list \<Rightarrow> complex list \<Rightarrow> complex list \<Rightarrow> ndarray
            \<Rightarrow> complex list \<times> complex list \<times> complex list \<times> ndarray \<times> int"
  gbsv :: "nat \<Rightarrow> nat \<Rightarrow> ndarray \<Rightarrow> ndarray \<Rightarrow> ndarray \<times> int list \<times> ndarray \<times> int"
  ptsv :: "real list \<Rightarrow> complex list \<Rightarrow> ndarray
            \<Rightarrow> real list \<times> complex list \<times> ndarray \<times> int"
  pbsv :: "ndarray \<Rightarrow> ndarray \<Rightarrow> bool \<Rightarrow> ndarray \<times> ndarray \<times> int"
  getrf :: "ndarray \<Rightarrow> ndarray \<times> int list \<times> int"
  getri_lwork :: "nat \<Rightarrow> real \<times> int"
  getri :: "ndarray \<Rightarrow> int list \<Rightarrow> int \<Rightarrow> ndarray \<times> int"
  gelss :: "ndarray \<Rightarrow> ndarray \<Rightarrow> real option \<Rightarrow> int
            \<Rightarrow> ndarray \<times> ndarray \<times> real list \<times> int \<times> complex list \<times> int"

text \<open>
  A kernel that is given permission to overwrite a buffer works in place: the buffer holds
  the corresponding output afterwards. Without the permission the kernel works on a copy
  of its own and the buffer keeps its contents.
\<close>

definition donate :: "bool \<Rightarrow> addr \<Rightarrow> ndarray \<Rightarrow> ndarray list \<Rightarrow> ndarray list" where
  "donate ow p v h = (if ow then h[p := v] else h)"

subsection \<open>Validation and aliasing helpers\<close>

text \<open>
  Modelled from the spec: \<^verbatim>\<open>_asarray_validated\<close> (module \<^verbatim>\<open>decomp\<close>) is not among the
  sources. The spec says it accepts array-like input and returns a validated numeric
  array. An array object is returned as it is; any other value is converted to a fresh
  array, allocated at the end of the store. The finite-value check cannot fail here, since
  the elements are exact numbers.
\<close>

definition asarray_validated :: "world \<Rightarrow> array_like \<Rightarrow> world \<times> addr" where
  "asarray_validated w a =
     (case a of
        NdRef p \<Rightarrow> (w, p)
      | PySeq v \<Rightarrow> (w\<lparr>heap := heap w @ [v]\<rparr>, length (heap w)))"

text \<open>
  Modelled from the spec: \<^verbatim>\<open>_datacopied\<close> (module \<^verbatim>\<open>misc\<close>) is not among the sources.
  The spec says it tells whether the validated array is a fresh copy distinct from the
  caller's buffer.
\<close>

definition datacopied :: "addr \<Rightarrow> array_like \<Rightarrow> bool" where
  "datacopied arr original =
     (case original of NdRef p \<Rightarrow> arr \<noteq> p | PySeq v \<Rightarrow> True)"

section \<open>solve\<close>

text \<open>
  Lines 95 to 100: the status of \<^verbatim>\<open>posv\<close> or \<^verbatim>\<open>gesv\<close> becomes the result.
\<close>

definition solve_status :: "int \<Rightarrow> ndarray \<Rightarrow> error + ndarray" where
  "solve_status info x =
     (if info = 0 then Inr x
      else if info > 0 then Inl (LinAlgError ''singular matrix'' [])
      else Inl (ValueError ''illegal value in %d-th argument of internal gesv|posv''
                  [IntArg (- info)]))"

text \<open>
  \<^verbatim>\<open>solve(a, b, sym_pos, lower, overwrite_a, overwrite_b)\<close>, lines 74 to 100. The
  \<^verbatim>\<open>debug\<close> flag only prints and is left out.
\<close>

definition solve ::
  "lapack \<Rightarrow> world \<Rightarrow> array_like \<Rightarrow> array_like \<Rightarrow> bool \<Rightarrow> bool \<Rightarrow> bool \<Rightarrow> bool
    \<Rightarrow> (error + ndarray) \<times> world" where
  "solve K w a b sym_pos lower overwrite_a overwrite_b =
     (let (w1, a1) = asarray_validated w a;
          (w2, b1) = asarray_validated w1 b;
          sa = shape (heap w2 ! a1);
          sb = shape (heap w2 ! b1)
      in if length sa \<noteq> 2 \<or> sa ! 0 \<noteq> sa ! 1 then
           (Inl (ValueError ''expected square matrix'' []), w2)
         else if sa ! 0 \<noteq> sb ! 0 then
           (Inl (ValueError ''incompatible dimensions'' []), w2)
         else
           let ow_a = (overwrite_a \<or> datacopied a1 a);
               ow_b = (overwrite_b \<or> datacopied b1 b)
           in if sym_pos then
                let w3 = log_event (Lookup [''posv'']) w2;
                    (c, x, info) = posv K (heap w3 ! a1) (heap w3 ! b1) lower;
                    w4 = log_event (Call (Posv a1 b1 lower ow_a ow_b))
                           (w3\<lparr>heap := donate ow_b b1 x (donate ow_a a1 c (heap w3))\<rparr>)
                in (solve_status info x, w4)
              else
                let w3 = log_event (Lookup [''gesv'']) w2;
                    (lu, piv, x, info) = gesv K (heap w3 ! a1) (heap w3 ! b1);
                    w4 = log_event (Call (Gesv a1 b1 ow_a ow_b))
                           (w3\<lparr>heap := donate ow_b b1 x (donate ow_a a1 lu (heap w3))\<rparr>)
                in (solve_status info x, w4))"

section \<open>solve_banded\<close>

text \<open>
  Reading and writing through a view. A kernel writes as many elements as the view has;
  the buffer keeps its shape.
\<close>

fun write_at :: "nat \<Rightarrow> 'a list \<Rightarrow> 'a list \<Rightarrow> 'a list" where
  "write_at k [] r = r"
| "write_at k (x # xs) r = write_at (Suc k) xs (r[k := x])"

definition view_get :: "ndarray list \<Rightarrow> view \<Rightarrow> complex list" where
  "view_get h v =
     (case h ! base v of
        Arr2 nc rs \<Rightarrow> take (hi v - lo v) (drop (lo v) (rs ! vrow v))
      | Arr1 xs \<Rightarrow> [])"

definition view_put :: "bool \<Rightarrow> view \<Rightarrow> complex list \<Rightarrow> ndarray list \<Rightarrow> ndarray list" where
  "view_put ow v xs h =
     (if ow then
        (case h ! base v of
           Arr2 nc rs \<Rightarrow>
             h[base v := Arr2 nc (rs[vrow v := write_at (lo v) (take (hi v - lo v) xs) (rs ! vrow v)])]
         | Arr1 ys \<Rightarrow> h)
      else h)"

text \<open>
  The right-hand side of the tridiagonal call is the caller's own \<^verbatim>\<open>b\<close>, not the
  validated \<^verbatim>\<open>b1\<close>: the kernel converts it itself. Only an array object can be written
  in place.
\<close>

definition array_value :: "ndarray list \<Rightarrow> array_like \<Rightarrow> ndarray" where
  "array_value h a = (case a of NdRef p \<Rightarrow> h ! p | PySeq v \<Rightarrow> v)"

definition donate_like :: "bool \<Rightarrow> array_like \<Rightarrow> ndarray \<Rightarrow> ndarray list \<Rightarrow> ndarray list" where
  "donate_like ow a v h = (case a of NdRef p \<Rightarrow> donate ow p v h | PySeq u \<Rightarrow> h)"

text \<open>Lines 239 to 243.\<close>

definition banded_status :: "int \<Rightarrow> ndarray \<Rightarrow> error + ndarray" where
  "banded_status info x =
     (if info = 0 then Inr x
      else if info > 0 then Inl (LinAlgError ''singular matrix'' [])
      else Inl (ValueError ''illegal value in %d-th argument of internal gbsv/gtsv''
                  [IntArg (- info)]))"

text \<open>
  Lines 226 to 232, the tridiagonal branch. The three diagonals are views of
  \<^verbatim>\<open>a1\<close>. The permission for all three is computed from \<^verbatim>\<open>b1\<close> and
  \<^verbatim>\<open>b\<close> (line 226). A one-dimensional \<^verbatim>\<open>a1\<close> fails at the first
  two-dimensional index.
\<close>

definition solve_banded_gtsv ::
  "lapack \<Rightarrow> world \<Rightarrow> addr \<Rightarrow> addr \<Rightarrow> array_like \<Rightarrow> bool \<Rightarrow> bool
    \<Rightarrow> (error + ndarray) \<times> world" where
  "solve_banded_gtsv K w2 a1 b1 b overwrite_ab ow_b =
     (let ow_ab = (overwrite_ab \<or> datacopied b1 b);
          w3 = log_event (Lookup [''gtsv'']) w2
      in (case heap w3 ! a1 of
            Arr1 xs \<Rightarrow> (Inl (IndexError ''too many indices for array''), w3)
          | Arr2 nc rs \<Rightarrow>
              let du = \<lparr>base = a1, vrow = 0, lo = 1, hi = nc\<rparr>;
                  d = \<lparr>base = a1, vrow = 1, lo = 0, hi = nc\<rparr>;
                  dl = \<lparr>base = a1, vrow = 2, lo = 0, hi = nc - 1\<rparr>;
                  (du2, d', du', x, info) =
                     gtsv K (view_get (heap w3) dl) (view_get (heap w3) d)
                       (view_get (heap w3) du) (array_value (heap w3) b);
                  h4 = donate_like ow_b b x
                         (view_put ow_ab du du'
                           (view_put ow_ab d d'
                             (view_put ow_ab dl du2 (heap w3))));
                  w4 = log_event (Call (Gtsv dl d du b ow_ab ow_ab ow_ab ow_b))
                         (w3\<lparr>heap := h4\<rparr>)
              in (banded_status info x, w4)))"

text \<open>
  Lines 234 to 238, the general branch: \<^verbatim>\<open>a2\<close> is a new array of zeros with
  \<^verbatim>\<open>2*l+u+1\<close> rows, and its rows from \<^verbatim>\<open>l\<close> on are assigned the rows of
  \<^verbatim>\<open>a1\<close>, of which there are \<^verbatim>\<open>l+u+1\<close> by the check of line 220. A
  one-dimensional \<^verbatim>\<open>a1\<close> has no \<^verbatim>\<open>shape[1]\<close>.
\<close>

definition solve_banded_gbsv ::
  "lapack \<Rightarrow> world \<Rightarrow> nat \<Rightarrow> nat \<Rightarrow> addr \<Rightarrow> addr \<Rightarrow> bool \<Rightarrow> (error + ndarray) \<times> world" where
  "solve_banded_gbsv K w2 l u a1 b1 ow_b =
     (let w3 = log_event (Lookup [''gbsv'']) w2
      in (case heap w3 ! a1 of
            Arr1 xs \<Rightarrow> (Inl (IndexError ''tuple index out of range''), w3)
          | Arr2 nc rs \<Rightarrow>
              let zeros = replicate (2 * l + u + 1) (replicate nc 0);
                  a2v = Arr2 nc (take l zeros @ rs);
                  a2 = length (heap w3);
                  w3' = w3\<lparr>heap := heap w3 @ [a2v]\<rparr>;
                  (lu, piv, x, info) = gbsv K l u a2v (heap w3' ! b1);
                  h4 = donate ow_b b1 x (donate True a2 lu (heap w3'));
                  w4 = log_event (Call (Gbsv l u a2 a2v b1 True ow_b)) (w3'\<lparr>heap := h4\<rparr>)
              in (banded_status info x, w4)))"

text \<open>
  \<^verbatim>\<open>solve_banded((l, u), ab, b, overwrite_ab, overwrite_b)\<close>, lines 214 to 243. The
  numbers of diagonals are natural numbers. The message of the second shape check reads
  \<^verbatim>\<open>ab.shape\<close> of the caller's own argument, which only an array object has.
\<close>

definition solve_banded ::
  "lapack \<Rightarrow> world \<Rightarrow> nat \<times> nat \<Rightarrow> array_like \<Rightarrow> array_like \<Rightarrow> bool \<Rightarrow> bool
    \<Rightarrow> (error + ndarray) \<times> world" where
  "solve_banded K w l_and_u ab b overwrite_ab overwrite_b =
     (let (w1, a1) = asarray_validated w ab;
          (w2, b1) = asarray_validated w1 b;
          sa = shape (heap w2 ! a1);
          sb = shape (heap w2 ! b1)
      in if last sa \<noteq> sb ! 0 then
           (Inl (ValueError ''shapes of ab and b are not compatible.'' []), w2)
         else
           let (l, u) = l_and_u
           in if l + u + 1 \<noteq> sa ! 0 then
                (case ab of
                   NdRef p \<Rightarrow>
                     (Inl (ValueError
                        ''invalid values for the number of lower and upper diagonals: l+u+1 (%d) does not equal ab.shape[0] (%d)''
                        [IntArg (int (l + u + 1)), IntArg (int (shape (heap w2 ! p) ! 0))]), w2)
                 | PySeq v \<Rightarrow> (Inl (AttributeError ''shape''), w2))
              else
                let ow_b = (overwrite_b \<or> datacopied b1 b)
                in if l = u \<and> u = 1 then solve_banded_gtsv K w2 a1 b1 b overwrite_ab ow_b
                   else solve_banded_gbsv K w2 l u a1 b1 ow_b)"

section \<open>solveh_banded\<close>

text \<open>Lines 317 to 322.\<close>

definition hbanded_status :: "int \<Rightarrow> ndarray \<Rightarrow> error + ndarray" where
  "hbanded_status info x =
     (if info > 0 then Inl (LinAlgError ''%d-th leading minor not positive definite'' [IntArg info])
      else if info < 0 then
        Inl (ValueError ''illegal value in %d-th argument of internal pbsv'' [IntArg (- info)])
      else Inr x)"

text \<open>
  \<^verbatim>\<open>solveh_banded(ab, b, overwrite_ab, overwrite_b, lower)\<close>, lines 295 to 322. With
  two storage rows the diagonal is the real part of one row and the off-diagonal comes
  from the other. Whether \<^verbatim>\<open>.real\<close> and \<^verbatim>\<open>.conj()\<close> share memory with
  \<^verbatim>\<open>a1\<close> depends on the element type, so the call is recorded with the values and
  permissions it passes, and of the kernel's writes only the one to \<^verbatim>\<open>b1\<close> is followed.
\<close>

definition solveh_banded ::
  "lapack \<Rightarrow> world \<Rightarrow> array_like \<Rightarrow> array_like \<Rightarrow> bool \<Rightarrow> bool \<Rightarrow> bool
    \<Rightarrow> (error + ndarray) \<times> world" where
  "solveh_banded K w ab b overwrite_ab overwrite_b lower =
     (let (w1, a1) = asarray_validated w ab;
          (w2, b1) = asarray_validated w1 b;
          sa = shape (heap w2 ! a1);
          sb = shape (heap w2 ! b1)
      in if last sa \<noteq> sb ! 0 then
           (Inl (ValueError ''shapes of ab and b are not compatible.'' []), w2)
         else
           let ow_b = (overwrite_b \<or> datacopied b1 b);
               ow_ab = (overwrite_ab \<or> datacopied a1 ab)
           in if sa ! 0 = 2 then
                let w3 = log_event (Lookup [''ptsv'']) w2
                in (case heap w3 ! a1 of
                      Arr1 xs \<Rightarrow> (Inl (IndexError ''too many indices for array''), w3)
                    | Arr2 nc rs \<Rightarrow>
                        let (d, e) =
                              (if lower then (map Re (rs ! 0), butlast (rs ! 1))
                               else (map Re (rs ! 1), map cnj (tl (rs ! 0))));
                            (d', du, x, info) = ptsv K d e (heap w3 ! b1);
                            w4 = log_event (Call (Ptsv d e b1 ow_ab ow_ab ow_b))
                                   (w3\<lparr>heap := donate ow_b b1 x (heap w3)\<rparr>)
                        in (hbanded_status info x, w4))
              else
                let w3 = log_event (Lookup [''pbsv'']) w2;
                    (c, x, info) = pbsv K (heap w3 ! a1) (heap w3 ! b1) lower;
                    w4 = log_event (Call (Pbsv a1 b1 lower ow_ab ow_b))
                           (w3\<lparr>heap := donate ow_b b1 x (donate ow_ab a1 c (heap w3))\<rparr>)
                in (hbanded_status info x, w4))"

section \<open>inv\<close>

text \<open>
  Python's \<^verbatim>\<open>int\<close> of a float drops the fraction, towards zero.
\<close>

definition py_int :: "real \<Rightarrow> int" where
  "py_int r = (if 0 \<le> r then \<lfloor>r\<rfloor> else \<lceil>r\<rceil>)"

text \<open>
  Line 466, \<^verbatim>\<open>lwork = int(1.01 * lwork)\<close>, in double precision. The float nearest
  to \<^verbatim>\<open>1.01\<close> is \<open>c101 / 2 ^ 52\<close>. The exact product of it and an integer is
  rounded to 53 significant binary digits, to the nearest and on a tie to the even
  neighbour; \<^verbatim>\<open>int\<close> then drops the fraction. The integer is one that a float holds
  exactly, as it comes from \<^verbatim>\<open>int\<close> of a float; overflow to infinity is not
  represented.
\<close>

fun bit_length :: "nat \<Rightarrow> nat" where
  "bit_length n = (if n = 0 then 0 else Suc (bit_length (n div 2)))"

declare bit_length.simps [simp del]

definition c101 :: nat where
  "c101 = 4548635623644201"

definition round53 :: "nat \<Rightarrow> nat" where
  "round53 N =
     (let s = bit_length N - 53;
          q = N div 2 ^ s;
          r = N mod 2 ^ s
      in if 2 * r > 2 ^ s \<or> (2 * r = 2 ^ s \<and> odd q) then (q + 1) * 2 ^ s else q * 2 ^ s)"

definition float_mul_1_01 :: "int \<Rightarrow> real" where
  "float_mul_1_01 k = of_int (sgn k) * real (round53 (nat \<bar>k\<bar> * c101)) / 2 ^ 52"

definition inflate_lwork :: "int \<Rightarrow> int" where
  "inflate_lwork lwork = py_int (float_mul_1_01 lwork)"

text \<open>
  Lines 468 to 473. \<^verbatim>\<open>inv_a\<close> is bound only when \<^verbatim>\<open>getri\<close> has run.
\<close>

definition inv_status :: "int \<Rightarrow> ndarray option \<Rightarrow> error + ndarray" where
  "inv_status info inv_a =
     (if info > 0 then Inl (LinAlgError ''singular matrix'' [])
      else if info < 0 then
        Inl (ValueError ''illegal value in %d-th argument of internal getrf|getri''
               [IntArg (- info)])
      else (case inv_a of
              None \<Rightarrow> Inl (UnboundLocalError ''inv_a'')
            | Some v \<Rightarrow> Inr v))"

text \<open>
  \<^verbatim>\<open>inv(a, overwrite_a)\<close>, lines 439 to 473, under the name \<open>inv_matrix\<close>
  (\<open>inv\<close> is the inverse of a function in HOL). \<^verbatim>\<open>getri\<close> is called with
  \<^verbatim>\<open>overwrite_lu=1\<close>; \<^verbatim>\<open>lu\<close> is the buffer of \<^verbatim>\<open>a1\<close> exactly when
  \<^verbatim>\<open>getrf\<close> was allowed to work in place.
\<close>

definition inv_matrix ::
  "lapack \<Rightarrow> world \<Rightarrow> array_like \<Rightarrow> bool \<Rightarrow> (error + ndarray) \<times> world" where
  "inv_matrix K w a overwrite_a =
     (let (w1, a1) = asarray_validated w a;
          sa = shape (heap w1 ! a1)
      in if length sa \<noteq> 2 \<or> sa ! 0 \<noteq> sa ! 1 then
           (Inl (ValueError ''expected square matrix'' []), w1)
         else
           let ow_a = (overwrite_a \<or> datacopied a1 a);
               w2 = log_event (Lookup [''getrf'', ''getri'', ''getri_lwork'']) w1;
               (lu, piv, info) = getrf K (heap w2 ! a1);
               w3 = log_event (Call (Getrf a1 ow_a)) (w2\<lparr>heap := donate ow_a a1 lu (heap w2)\<rparr>)
           in if info = 0 then
                let (lwork, info2) = getri_lwork K (sa ! 0);
                    w4 = log_event (Call (Getri_lwork (sa ! 0))) w3
                in if info2 \<noteq> 0 then
                     (Inl (ValueError ''internal getri work space query failed: %d''
                            [IntArg info2]), w4)
                   else
                     let lwork1 = py_int lwork;
                         lwork2 = inflate_lwork lwork1;
                         (inv_a, info3) = getri K lu piv lwork2;
                         w5 = log_event (Call (Getri lu piv lwork2 True))
                                (w4\<lparr>heap := donate ow_a a1 inv_a (heap w4)\<rparr>)
                     in (inv_status info3 (Some inv_a), w5)
              else (inv_status info None, w3))"

section \<open>lstsq\<close>

text \<open>
  The residues are a number when \<^verbatim>\<open>b\<close> is one-dimensional and a one-dimensional
  array otherwise; \<^verbatim>\<open>np.asarray([])\<close> is the array with no elements.
\<close>

datatype residues = Res0 real | Res1 "real list"

fun res_size :: "residues \<Rightarrow> nat" where
  "res_size (Res0 r) = 1"
| "res_size (Res1 rs) = length rs"

fun row_take :: "nat \<Rightarrow> ndarray \<Rightarrow> ndarray" where
  "row_take n (Arr1 xs) = Arr1 (take n xs)"
| "row_take n (Arr2 nc rs) = Arr2 nc (take n rs)"

fun row_drop :: "nat \<Rightarrow> ndarray \<Rightarrow> ndarray" where
  "row_drop n (Arr1 xs) = Arr1 (drop n xs)"
| "row_drop n (Arr2 nc rs) = Arr2 nc (drop n rs)"

text \<open>
  \<^verbatim>\<open>np.sum(np.abs(x)**2, axis=0)\<close>: the rows are added up, element by element.
\<close>

definition abs2 :: "complex \<Rightarrow> real" where
  "abs2 z = (cmod z)\<^sup>2"

fun sum_abs2_axis0 :: "ndarray \<Rightarrow> residues" where
  "sum_abs2_axis0 (Arr1 xs) = Res0 (sum_list (map abs2 xs))"
| "sum_abs2_axis0 (Arr2 nc rs) =
     Res1 (foldr (\<lambda>r acc. map2 (+) (map abs2 r) acc) rs (replicate nc 0))"

text \<open>
  Lines 606 to 615: \<^verbatim>\<open>b\<close> padded with zero rows up to \<^verbatim>\<open>n\<close> rows.
\<close>

fun pad_rows :: "nat \<Rightarrow> nat \<Rightarrow> nat \<Rightarrow> ndarray \<Rightarrow> ndarray" where
  "pad_rows n m nrhs (Arr1 xs) = Arr1 (take m xs @ replicate (n - m) 0)"
| "pad_rows n m nrhs (Arr2 nc rs) = Arr2 nrhs (take m rs @ replicate (n - m) (replicate nrhs 0))"

definition driver_names :: "string list" where
  "driver_names = [''gelsd'', ''gelsy'', ''gelss'']"

text \<open>
  Lines 633 to 638: the residues and the solution cut to \<^verbatim>\<open>n\<close> rows.
\<close>

definition lstsq_resids :: "nat \<Rightarrow> nat \<Rightarrow> int \<Rightarrow> ndarray \<Rightarrow> ndarray \<times> residues" where
  "lstsq_resids m n rank x =
     (if n < m then
        (row_take n x, if rank = int n then sum_abs2_axis0 (row_drop n x) else Res1 [])
      else (x, Res1 []))"

text \<open>
  Lines 620 to 638, the branch for \<^verbatim>\<open>gelss\<close>. The work-space query is a call of
  the same kernel with \<^verbatim>\<open>lwork=-1\<close> and no cutoff.
\<close>

definition lstsq_gelss ::
  "lapack \<Rightarrow> world \<Rightarrow> nat \<Rightarrow> nat \<Rightarrow> addr \<Rightarrow> addr \<Rightarrow> real option \<Rightarrow> bool \<Rightarrow> bool
    \<Rightarrow> (error + ndarray \<times> residues \<times> int \<times> real list) \<times> world" where
  "lstsq_gelss K w4 m n a1 b2 cond ow_a ow_b =
     (let (qv, qx, qs, qrank, work, qinfo) = gelss K (heap w4 ! a1) (heap w4 ! b2) None (- 1);
          w5 = log_event (Call (Gelss_query a1 b2)) w4
      in (case work of
            [] \<Rightarrow> (Inl (IndexError ''index 0 is out of bounds''), w5)
          | wk # wks \<Rightarrow>
              let lwork = py_int (Re wk);
                  (v, x, s, rank, work', info) = gelss K (heap w5 ! a1) (heap w5 ! b2) cond lwork;
                  w6 = log_event (Call (Gelss a1 b2 cond lwork ow_a ow_b))
                         (w5\<lparr>heap := donate ow_b b2 x (donate ow_a a1 v (heap w5))\<rparr>)
              in if info > 0 then
                   (Inl (LinAlgError ''SVD did not converge in Linear Least Squares'' []), w6)
                 else if info < 0 then
                   (Inl (ValueError ''illegal value in %d-th argument of internal gelss''
                          [IntArg (- info)]), w6)
                 else
                   let (x', resids) = lstsq_resids m n rank x
                   in (Inr (x', resids, rank, s), w6)))"

text \<open>
  Lines 605 to 639, after the checks. Only the branch for \<^verbatim>\<open>gelss\<close> binds
  \<^verbatim>\<open>x\<close>, \<^verbatim>\<open>resids\<close>, \<^verbatim>\<open>rank\<close> and \<^verbatim>\<open>s\<close>; with another driver
  the \<^verbatim>\<open>return\<close> statement reads the unbound local \<^verbatim>\<open>x\<close>.
\<close>

definition lstsq_run ::
  "lapack \<Rightarrow> world \<Rightarrow> nat \<Rightarrow> nat \<Rightarrow> nat \<Rightarrow> addr \<Rightarrow> array_like \<Rightarrow> addr \<Rightarrow> array_like
    \<Rightarrow> real option \<Rightarrow> bool \<Rightarrow> bool \<Rightarrow> string
    \<Rightarrow> (error + ndarray \<times> residues \<times> int \<times> real list) \<times> world" where
  "lstsq_run K w2 m n nrhs a1 a b1 b cond overwrite_a overwrite_b lapack_driver =
     (let w3 = log_event (Lookup [lapack_driver]) w2;
          (w4, b2) =
             (if n > m then
                (w3\<lparr>heap := heap w3 @ [pad_rows n m nrhs (heap w3 ! b1)]\<rparr>, length (heap w3))
              else (w3, b1));
          ow_a = (overwrite_a \<or> datacopied a1 a);
          ow_b = (overwrite_b \<or> datacopied b2 b)
      in if lapack_driver = ''gelss'' then lstsq_gelss K w4 m n a1 b2 cond ow_a ow_b
         else (Inl (UnboundLocalError ''x''), w4))"

text \<open>
  \<^verbatim>\<open>lstsq(a, b, cond, overwrite_a, overwrite_b, lapack_driver)\<close>, lines 592 to 639.
\<close>

definition lstsq ::
  "lapack \<Rightarrow> world \<Rightarrow> array_like \<Rightarrow> array_like \<Rightarrow> real option \<Rightarrow> bool \<Rightarrow> bool \<Rightarrow> string
    \<Rightarrow> (error + ndarray \<times> residues \<times> int \<times> real list) \<times> world" where
  "lstsq K w a b cond overwrite_a overwrite_b lapack_driver =
     (let (w1, a1) = asarray_validated w a;
          (w2, b1) = asarray_validated w1 b;
          sa = shape (heap w2 ! a1);
          sb = shape (heap w2 ! b1)
      in if length sa \<noteq> 2 then (Inl (ValueError ''expected matrix'' []), w2)
         else
           let m = sa ! 0;
               n = sa ! 1;
               nrhs = (if length sb = 2 then sb ! 1 else 1)
           in if m \<noteq> sb ! 0 then (Inl (ValueError ''incompatible dimensions'' []), w2)
              else if lapack_driver \<notin> set driver_names then
                (Inl (ValueError
                       (''LAPACK driver '' @ [CHR 0x22] @ ''%s'' @ [CHR 0x22] @ ''is not found'')
                       [StrArg lapack_driver]), w2)
              else lstsq_run K w2 m n nrhs a1 a b1 b cond overwrite_a overwrite_b
                     lapack_driver)"

section \<open>The pseudo-inverses\<close>

text \<open>
  Lines 688 and 689, the same in all three functions: \<^verbatim>\<open>rcond\<close>, when given, replaces
  \<^verbatim>\<open>cond\<close>.
\<close>

definition pick_cond :: "real option \<Rightarrow> real option \<Rightarrow> real option" where
  "pick_cond cond rcond = (case rcond of Some r \<Rightarrow> Some r | None \<Rightarrow> cond)"

definition identity :: "nat \<Rightarrow> ndarray" where
  "identity m = Arr2 m (map (\<lambda>i. map (\<lambda>j. if i = j then 1 else 0) [0..<m]) [0..<m])"

text \<open>
  \<^verbatim>\<open>pinv(a, cond, rcond, return_rank)\<close>, lines 686 to 696: the least-squares solution
  for the identity as right-hand side, with the driver left at its default. The result is
  the matrix, with the rank when \<^verbatim>\<open>return_rank\<close> is set.
\<close>

definition pinv ::
  "lapack \<Rightarrow> world \<Rightarrow> array_like \<Rightarrow> real option \<Rightarrow> real option \<Rightarrow> bool
    \<Rightarrow> (error + ndarray \<times> int option) \<times> world" where
  "pinv K w a cond rcond return_rank =
     (let (w1, a1) = asarray_validated w a;
          b = length (heap w1);
          w2 = w1\<lparr>heap := heap w1 @ [identity (shape (heap w1 ! a1) ! 0)]\<rparr>;
          cond' = pick_cond cond rcond
      in (case lstsq K w2 (NdRef a1) (NdRef b) cond' False False ''gelsd'' of
            (Inl e, w3) \<Rightarrow> (Inl e, w3)
          | (Inr (x, resids, rank, s), w3) \<Rightarrow>
              (Inr (x, if return_rank then Some rank else None), w3)))"

text \<open>
  The singular values and eigenvalues are floating-point numbers, and so are the cutoff and
  its product with the largest of them. A float is represented by the real number it
  stands for, and a floating-point product by the exact product rounded to 53 significant
  binary digits, to the nearest and on a tie to the even neighbour. NaN, infinities,
  overflow and underflow are not represented.

  \<open>ilog2 x\<close> is the exponent of the leading binary digit of a positive \<open>x\<close>.
\<close>

definition ilog2 :: "real \<Rightarrow> int" where
  "ilog2 x = (if 1 \<le> x then int (bit_length (nat \<lfloor>x\<rfloor>)) - 1
              else - int (bit_length (nat (\<lceil>1 / x\<rceil> - 1))))"

definition round_sig :: "nat \<Rightarrow> real \<Rightarrow> real" where
  "round_sig p x =
     (if x = 0 then 0
      else
        let u = 2 powi (ilog2 \<bar>x\<bar> - int p + 1);
            q = \<lfloor>\<bar>x\<bar> / u\<rfloor>;
            r = \<bar>x\<bar> / u - of_int q
        in sgn x * (if r > 1 / 2 \<or> (r = 1 / 2 \<and> odd q) then of_int (q + 1) * u
                    else of_int q * u))"

definition float_mul :: "real \<Rightarrow> real \<Rightarrow> real" where
  "float_mul x y = round_sig 53 (x * y)"

text \<open>
  Lines 750 to 753 and 825 to 828: the default cutoff. The element type of the
  decomposition's output is known by its type character; its lower case selects the
  factor and the machine epsilon, and the cutoff is their floating-point product.
\<close>

datatype dtype = Float32 | Float64 | Complex64 | Complex128

fun dtype_char_lower :: "dtype \<Rightarrow> char" where
  "dtype_char_lower Float32 = CHR ''f''"
| "dtype_char_lower Float64 = CHR ''d''"
| "dtype_char_lower Complex64 = CHR ''f''"
| "dtype_char_lower Complex128 = CHR ''d''"

definition factor :: "char \<Rightarrow> real option" where
  "factor t = (if t = CHR ''f'' then Some 1000 else if t = CHR ''d'' then Some 1000000 else None)"

definition finfo_eps :: "char \<Rightarrow> real" where
  "finfo_eps t = (if t = CHR ''f'' then 1 / 2 ^ 23 else 1 / 2 ^ 52)"

definition default_cond :: "dtype \<Rightarrow> real option \<Rightarrow> error + real" where
  "default_cond dt cond =
     (if cond = None \<or> cond = Some (- 1) then
        (let t = dtype_char_lower dt
         in case factor t of
              None \<Rightarrow> Inl (KeyError [t])
            | Some f \<Rightarrow> Inr (float_mul f (finfo_eps t)))
      else Inr (the cond))"

text \<open>
  \<^verbatim>\<open>np.max\<close> of an array with no elements raises \<^verbatim>\<open>ValueError\<close>.
\<close>

definition zero_size_error :: error where
  "zero_size_error =
     ValueError ''zero-size array to reduction operation maximum which has no identity'' []"

definition np_max :: "real list \<Rightarrow> error + real" where
  "np_max xs = (case xs of [] \<Rightarrow> Inl zero_size_error | y # ys \<Rightarrow> Inr (fold max ys y))"

text \<open>
  Lines 755 and 831, \<^verbatim>\<open>s > cond * np.max(s)\<close>. The product of the two numbers is a
  double-precision product. The array of values has the precision of the decomposition:
  against a single-precision array the number is compared in single precision, converted
  to 24 significant binary digits first (NumPy's conversion rules before version 2; with
  the default cutoff the later rules give the same number, since the product is then
  exact in double precision).
\<close>

definition threshold :: "dtype \<Rightarrow> real \<Rightarrow> real \<Rightarrow> real" where
  "threshold dt cond mx =
     (let t = float_mul cond mx
      in if dtype_char_lower dt = CHR ''f'' then round_sig 24 t else t)"

text \<open>
  The rank that \<^verbatim>\<open>pinv2\<close> returns with \<^verbatim>\<open>return_rank\<close>, lines 745 to 755. The
  singular value decomposition is a parameter; it gives the element type of \<^verbatim>\<open>u\<close>
  and the singular values, or fails. The matrix \<^verbatim>\<open>B\<close> is built from the
  decomposition and this rank and does not feed back into it.
\<close>

definition pinv2_rank ::
  "(ndarray \<Rightarrow> error + dtype \<times> real list) \<Rightarrow> ndarray \<Rightarrow> real option \<Rightarrow> real option
    \<Rightarrow> error + nat" where
  "pinv2_rank svd a cond rcond =
     (case svd a of
        Inl e \<Rightarrow> Inl e
      | Inr (dt, s) \<Rightarrow>
          (case default_cond dt (pick_cond cond rcond) of
             Inl e \<Rightarrow> Inl e
           | Inr c \<Rightarrow>
               (case np_max s of
                  Inl e \<Rightarrow> Inl e
                | Inr mx \<Rightarrow> Inr (length (filter (\<lambda>x. x > threshold dt c mx) s)))))"

text \<open>
  The rank that \<^verbatim>\<open>pinvh\<close> returns with \<^verbatim>\<open>return_rank\<close>, lines 820 to 838: the
  number of eigenvalues whose magnitude is above the cutoff.
\<close>

definition pinvh_rank ::
  "(ndarray \<Rightarrow> bool \<Rightarrow> error + real list \<times> dtype) \<Rightarrow> ndarray \<Rightarrow> real option \<Rightarrow> real option
    \<Rightarrow> bool \<Rightarrow> error + nat" where
  "pinvh_rank eigh a cond rcond lower =
     (case eigh a lower of
        Inl e \<Rightarrow> Inl e
      | Inr (s, dt) \<Rightarrow>
          (case default_cond dt (pick_cond cond rcond) of
             Inl e \<Rightarrow> Inl e
           | Inr c \<Rightarrow>
               (case np_max (map abs s) of
                  Inl e \<Rightarrow> Inl e
                | Inr mx \<Rightarrow> Inr (length (filter (\<lambda>x. abs x > threshold dt c mx) s)))))"

text \<open>
  The default cutoff in the spec's words, for comparison: \<open>1e3\<close> times the machine
  epsilon for single precision, \<open>1e6\<close> times the machine epsilon for double
  precision.
\<close>

definition spec_default_cutoff :: "dtype \<Rightarrow> real" where
  "spec_default_cutoff dt =
     (if dt = Float64 \<or> dt = Complex128 then 1000000 / 2 ^ 52 else 1000 / 2 ^ 23)"

section \<open>solve_toeplitz\<close>

datatype c_or_cr = COnly array_like | CPair array_like array_like

fun ravel :: "ndarray \<Rightarrow> complex list" where
  "ravel (Arr1 xs) = xs"
| "ravel (Arr2 nc rs) = concat rs"

text \<open>
  Line 372, \<^verbatim>\<open>np.concatenate((r[-1:0:-1], c))\<close>: the slice runs from the last
  element down to the one at index 1.
\<close>

definition toeplitz_vals :: "complex list \<Rightarrow> complex list \<Rightarrow> complex list" where
  "toeplitz_vals c r = rev (drop 1 r) @ c"

definition column_stack :: "nat \<Rightarrow> complex list list \<Rightarrow> complex list list" where
  "column_stack n cols = map (\<lambda>k. map (\<lambda>col. col ! k) cols) [0..<n]"

text \<open>
  \<^verbatim>\<open>solve_toeplitz(c_or_cr, b)\<close>, lines 362 to 397. The right-hand side may be
  \<^verbatim>\<open>None\<close>. Line 375 reads \<^verbatim>\<open>b.shape\<close> of the caller's own argument, before
  line 378 validates it; only an array object has that attribute. The recursion
  \<^verbatim>\<open>levinson\<close> is a compiled module and a parameter here; it is run once for a
  one-dimensional \<^verbatim>\<open>b\<close> and once per column otherwise, and stacking no columns
  fails. The conversions to double precision do not change exact numbers.
\<close>

definition solve_toeplitz ::
  "(complex list \<Rightarrow> complex list \<Rightarrow> complex list \<times> complex list) \<Rightarrow> world \<Rightarrow> c_or_cr
    \<Rightarrow> array_like option \<Rightarrow> (error + ndarray) \<times> world" where
  "solve_toeplitz levinson w cr b =
     (let (w2, c, r) =
            (case cr of
               CPair c0 r0 \<Rightarrow>
                 let (w1, c1) = asarray_validated w c0;
                     (w2, r1) = asarray_validated w1 r0
                 in (w2, ravel (heap w2 ! c1), ravel (heap w2 ! r1))
             | COnly c0 \<Rightarrow>
                 let (w1, c1) = asarray_validated w c0;
                     c = ravel (heap w1 ! c1)
                 in (w1, c, map cnj c));
          vals = toeplitz_vals c r
      in (case b of
            None \<Rightarrow> (Inl (ValueError ''illegal value, `b` is a required argument'' []), w2)
          | Some (PySeq v) \<Rightarrow> (Inl (AttributeError ''shape''), w2)
          | Some (NdRef p) \<Rightarrow>
              if int (length vals) \<noteq> 2 * int (shape (heap w2 ! p) ! 0) - 1 then
                (Inl (ValueError ''incompatible dimensions'' []), w2)
              else
                (case heap w2 ! p of
                   Arr1 xs \<Rightarrow> (Inr (Arr1 (fst (levinson vals xs))), w2)
                 | Arr2 nc rs \<Rightarrow>
                     if nc = 0 then
                       (Inl (ValueError ''need at least one array to concatenate'' []), w2)
                     else
                       (Inr (Arr2 nc (column_stack (length rs)
                               (map (\<lambda>i. fst (levinson vals (map (\<lambda>r. r ! i) rs))) [0..<nc]))),
                        w2))))"

section \<open>Concrete inputs\<close>

text \<open>
  A kernel library for the examples: every kernel reports success and returns the
  buffers it was given; the work-space queries answer 200.
\<close>

definition K0 :: lapack where
  "K0 = \<lparr>posv = (\<lambda>a b lower. (a, b, 0)),
         gesv = (\<lambda>a b. (a, [], b, 0)),
         gtsv = (\<lambda>dl d du b. (dl, d, du, b, 0)),
         gbsv = (\<lambda>l u ab b. (ab, [], b, 0)),
         ptsv = (\<lambda>d e b. (d, e, b, 0)),
         pbsv = (\<lambda>ab b lower. (ab, b, 0)),
         getrf = (\<lambda>a. (a, [], 0)),
         getri_lwork = (\<lambda>n. (200, 0)),
         getri = (\<lambda>lu piv lwork. (lu, 0)),
         gelss = (\<lambda>a b cond lwork. (a, b, [], 0, [200], 0))\<rparr>"

text \<open>
  A store with a one-by-one matrix at address 0 and a vector of one element at address 1.
\<close>

definition w0 :: world where
  "w0 = \<lparr>heap = [Arr2 1 [[2]], Arr1 [4]], events = []\<rparr>"

text \<open>The same kernels, with a Cholesky solve that reports a failed pivot.\<close>

definition K_fail :: lapack where
  "K_fail = K0\<lparr>posv := (\<lambda>a b lower. (a, b, 1))\<rparr>"

text \<open>
  Kernels that leave zeros in every output, as a factorization that overwrites its input
  would leave other numbers there.
\<close>

fun zeros_like :: "ndarray \<Rightarrow> ndarray" where
  "zeros_like (Arr1 xs) = Arr1 (map (\<lambda>z. 0) xs)"
| "zeros_like (Arr2 nc rs) = Arr2 nc (map (map (\<lambda>z. 0)) rs)"

definition K_zero :: lapack where
  "K_zero = K0\<lparr>gtsv := (\<lambda>dl d du b.
                    (map (\<lambda>z. 0) dl, map (\<lambda>z. 0) d, map (\<lambda>z. 0) du, zeros_like b, 0)),
               gbsv := (\<lambda>l u ab b. (zeros_like ab, [], zeros_like b, 0))\<rparr>"

text \<open>
  A banded matrix with one lower and no upper diagonal, and a right-hand side; a
  tridiagonal matrix in banded storage.
\<close>

definition wb :: world where
  "wb = \<lparr>heap = [Arr2 2 [[2, 3], [1, 1]], Arr1 [1, 1]], events = []\<rparr>"

definition wt :: world where
  "wt = \<lparr>heap = [Arr2 3 [[0, 1, 1], [4, 4, 4], [1, 1, 0]]], events = []\<rparr>"

text \<open>
  A Hermitian tridiagonal matrix with diagonal 2, 2 and sub-diagonal \<open>\<i>\<close>, in lower
  form and in upper form.
\<close>

definition wh :: world where
  "wh = \<lparr>heap = [Arr2 2 [[2, 2], [\<i>, 0]], Arr1 [1, 1]], events = []\<rparr>"

definition wh_up :: world where
  "wh_up = \<lparr>heap = [Arr2 2 [[0, - \<i>], [2, 2]], Arr1 [1, 1]], events = []\<rparr>"

text \<open>
  A three-by-one matrix of full column rank with a right-hand side of three elements.
\<close>

definition wl :: world where
  "wl = \<lparr>heap = [Arr2 1 [[1], [1], [1]], Arr1 [1, 2, 4]], events = []\<rparr>"

text \<open>
  The matrix with diagonal 3, 0, its singular values and its eigenvalues, in double
  precision.
\<close>

definition wp :: world where
  "wp = \<lparr>heap = [Arr2 2 [[3, 0], [0, 0]]], events = []\<rparr>"

definition svd1 :: "ndarray \<Rightarrow> error + dtype \<times> real list" where
  "svd1 a = Inr (Float64, [3, 0])"

definition eigh1 :: "ndarray \<Rightarrow> bool \<Rightarrow> error + real list \<times> dtype" where
  "eigh1 a lower = Inr ([0, 3], Float64)"

text \<open>
  Two singular values in double precision, the float nearest to \<open>0.7\<close> and
  \<open>21875 / 2 ^ 47\<close>. The second lies above the exact product of the default cutoff
  and the first, and is equal to the rounded product.
\<close>

definition svd2 :: "ndarray \<Rightarrow> error + dtype \<times> real list" where
  "svd2 a = Inr (Float64, [3152519739159347 / 2 ^ 52, 21875 / 2 ^ 47])"

text \<open>A stand-in for the recursion: it returns the right-hand side.\<close>

definition lev0 :: "complex list \<Rightarrow> complex list \<Rightarrow> complex list \<times> complex list" where
  "lev0 vals b = (b, [])"

section \<open>Validation leaves the caller's store alone\<close>

lemma events_asarray_validated:
  "asarray_validated w a = (w1, a1) \<Longrightarrow> events w1 = events w"
  by (auto simp: asarray_validated_def split: array_like.splits)

lemma heap_asarray_validated:
  "asarray_validated w a = (w1, a1) \<Longrightarrow> take (length (heap w)) (heap w1) = heap w"
  by (auto simp: asarray_validated_def split: array_like.splits)

lemma length_asarray_validated:
  "asarray_validated w a = (w1, a1) \<Longrightarrow> length (heap w) \<le> length (heap w1)"
  by (auto simp: asarray_validated_def split: array_like.splits)

lemma heap_asarray_validated2:
  assumes v1: "asarray_validated w a = (w1, a1)"
      and v2: "asarray_validated w1 b = (w2, b1)"
  shows "take (length (heap w)) (heap w2) = heap w"
proof -
  have "length (heap w) \<le> length (heap w1)"
    using v1 by (rule length_asarray_validated)
  then have "take (length (heap w)) (heap w2)
               = take (length (heap w)) (take (length (heap w1)) (heap w2))"
    by (simp add: min_def)
  then show ?thesis
    using heap_asarray_validated [OF v1] heap_asarray_validated [OF v2] by simp
qed

section \<open>solve: the kernel status decides the outcome\<close>

text \<open>
  Claim C6. For a square \<open>a\<close> and a \<open>b\<close> with as many rows, \<open>solve\<close> with
  \<open>sym_pos\<close> set looks up and calls the Cholesky kernel \<open>posv\<close> and nothing else,
  whatever status it reports: a positive status is the failure
  \<open>LinAlgError ''singular matrix''\<close> and the LU kernel \<open>gesv\<close> is not tried. Without
  \<open>sym_pos\<close> only \<open>gesv\<close> is looked up and called. On both paths status 0 returns
  the kernel's solution, a positive status raises \<open>LinAlgError\<close> and a negative one
  raises \<open>ValueError\<close>.
\<close>

theorem solve_status_contract:
  assumes v1: "asarray_validated w a = (w1, a1)"
      and v2: "asarray_validated w1 b = (w2, b1)"
      and sq: "shape (heap w2 ! a1) = [n, n]"
      and dim: "shape (heap w2 ! b1) ! 0 = n"
      and pk: "posv K (heap w2 ! a1) (heap w2 ! b1) lower = (c, xp, ip)"
      and gk: "gesv K (heap w2 ! a1) (heap w2 ! b1) = (lu, piv, xg, ig)"
      and oa: "ow_a = (overwrite_a \<or> datacopied a1 a)"
      and ob: "ow_b = (overwrite_b \<or> datacopied b1 b)"
  shows "solve K w a b True lower overwrite_a overwrite_b =
           (if ip = 0 then Inr xp
            else if 0 < ip then Inl (LinAlgError ''singular matrix'' [])
            else Inl (ValueError ''illegal value in %d-th argument of internal gesv|posv''
                        [IntArg (- ip)]),
            \<lparr>heap = donate ow_b b1 xp (donate ow_a a1 c (heap w2)),
             events = events w @ [Lookup [''posv''], Call (Posv a1 b1 lower ow_a ow_b)]\<rparr>)
       \<and> solve K w a b False lower overwrite_a overwrite_b =
           (if ig = 0 then Inr xg
            else if 0 < ig then Inl (LinAlgError ''singular matrix'' [])
            else Inl (ValueError ''illegal value in %d-th argument of internal gesv|posv''
                        [IntArg (- ig)]),
            \<lparr>heap = donate ow_b b1 xg (donate ow_a a1 lu (heap w2)),
             events = events w @ [Lookup [''gesv''], Call (Gesv a1 b1 ow_a ow_b)]\<rparr>)"
proof -
  have ev: "events w2 = events w"
    using v1 v2 by (simp add: events_asarray_validated)
  show ?thesis
    using v1 v2 sq dim pk gk ev oa ob
    by (simp add: solve_def Let_def log_event_def solve_status_def)
qed

theorem solve_status_contract_witness:
  "asarray_validated w0 (NdRef 0) = (w0, 0)
   \<and> asarray_validated w0 (NdRef 1) = (w0, 1)
   \<and> shape (heap w0 ! 0) = [1, 1]
   \<and> shape (heap w0 ! 1) ! 0 = 1
   \<and> posv K_fail (heap w0 ! 0) (heap w0 ! 1) False = (Arr2 1 [[2]], Arr1 [4], 1)
   \<and> gesv K_fail (heap w0 ! 0) (heap w0 ! 1) = (Arr2 1 [[2]], [], Arr1 [4], 0)
   \<and> solve K_fail w0 (NdRef 0) (NdRef 1) True False False False =
       (Inl (LinAlgError ''singular matrix'' []),
        \<lparr>heap = [Arr2 1 [[2]], Arr1 [4]],
         events = [Lookup [''posv''], Call (Posv 0 1 False False False)]\<rparr>)
   \<and> solve K_fail w0 (NdRef 0) (NdRef 1) False False False False =
       (Inr (Arr1 [4]),
        \<lparr>heap = [Arr2 1 [[2]], Arr1 [4]],
         events = [Lookup [''gesv''], Call (Gesv 0 1 False False)]\<rparr>)"
  using solve_status_contract [of w0 "NdRef 0" w0 0 "NdRef 1" w0 1 1 K_fail False
      "Arr2 1 [[2]]" "Arr1 [4]" 1 "Arr2 1 [[2]]" "[]" "Arr1 [4]" 0 False False False False]
  by (simp add: w0_def K_fail_def K0_def asarray_validated_def datacopied_def donate_def)

section \<open>inv: the work-space size\<close>

lemma py_int_of_int: "py_int (real_of_int k) = k"
  by (simp add: py_int_def)

text \<open>The number of binary digits of a natural number.\<close>

lemma bit_length_le:
  assumes "n < 2 ^ w"
  shows "bit_length n \<le> w"
  using assms
proof (induction n arbitrary: w rule: bit_length.induct)
  case (1 n)
  show ?case
  proof (cases "n = 0")
    case True
    then show ?thesis by (simp add: bit_length.simps)
  next
    case False
    then obtain v where w: "w = Suc v"
      using "1.prems" by (cases w) auto
    have "n div 2 < 2 ^ v"
      using "1.prems" w by auto
    then have "bit_length (n div 2) \<le> v"
      using "1.IH" False by simp
    then show ?thesis
      using False w by (simp add: bit_length.simps [of n])
  qed
qed

lemma c101_times_100: "100 * c101 = 101 * 2 ^ 52 + 4"
  by (simp add: c101_def)

text \<open>Rounding moves a number to one of the two multiples of the unit around it.\<close>

lemma round53_between:
  "N div 2 ^ (bit_length N - 53) * 2 ^ (bit_length N - 53) \<le> round53 N
   \<and> round53 N \<le> N div 2 ^ (bit_length N - 53) * 2 ^ (bit_length N - 53) + 2 ^ (bit_length N - 53)"
  by (simp add: round53_def Let_def)

text \<open>
  For a size below \<open>2 ^ 31\<close> the rounded product, cut to an integer, is the size plus
  one hundredth of it, rounded down: the rounding error is too small to reach the next
  integer.
\<close>

lemma round53_c101:
  assumes n: "n < 2 ^ 31"
  shows "round53 (n * c101) div 2 ^ 52 = n + n div 100"
proof -
  define N where "N = n * c101"
  define s where "s = bit_length N - 53"
  define T where "T = (2::nat) ^ s"
  define q where "q = N div T"
  define k where "k = n + n div 100"
  define P where "P = (2::nat) ^ 52"
  have c: "c101 < 2 ^ 53"
    by (simp add: c101_def)
  have "N < 2 ^ 31 * 2 ^ 53"
    unfolding N_def using n c by (intro mult_strict_mono) simp_all
  then have "N < 2 ^ 84"
    by simp
  then have "bit_length N \<le> 84"
    by (rule bit_length_le)
  then have s31: "s \<le> 31"
    by (simp add: s_def)
  have T31: "T \<le> 2 ^ 31"
    unfolding T_def using s31 by (intro power_increasing) simp_all
  have Tpos: "0 < T"
    by (simp add: T_def)
  have Pdiv: "P = 2 ^ (52 - s) * T"
    unfolding P_def T_def using s31 by (simp flip: power_add)
  have hundred: "100 * N = 101 * n * P + 4 * n"
    unfolding N_def P_def using c101_times_100 by (simp add: algebra_simps)
  have k1: "100 * k \<le> 101 * n" and k2: "101 * n \<le> 100 * k + 99"
    unfolding k_def by presburger+
  have lowN: "k * P \<le> N"
  proof -
    have "100 * (k * P) \<le> 101 * n * P"
      using k1 by (simp add: mult_le_mono1 flip: mult.assoc)
    then show ?thesis
      using hundred by linarith
  qed
  have "k * 2 ^ (52 - s) * T \<le> N"
    using lowN by (simp add: Pdiv mult.assoc)
  then have "k * 2 ^ (52 - s) \<le> q"
    unfolding q_def using Tpos by (simp add: less_eq_div_iff_mult_less_eq)
  then have "k * 2 ^ (52 - s) * T \<le> q * T"
    by (rule mult_le_mono1)
  then have low: "k * P \<le> q * T"
    by (simp add: Pdiv mult.assoc)
  have qT: "q * T \<le> N"
    by (simp add: q_def)
  have "100 * (N + T) < 100 * ((k + 1) * P)"
  proof -
    have "101 * n * P \<le> (100 * k + 99) * P"
      using k2 by (rule mult_le_mono1)
    then have "100 * N \<le> 100 * k * P + 99 * P + 4 * n"
      using hundred by (simp add: algebra_simps)
    moreover have "4 * n + 100 * T < P"
      using n T31 by (simp add: P_def)
    ultimately show ?thesis
      by (simp add: algebra_simps)
  qed
  then have "N + T < (k + 1) * P"
    by simp
  then have up: "q * T + T < (k + 1) * P"
    using qT by (meson add_le_mono1 le_less_trans)
  have r: "q * T \<le> round53 N \<and> round53 N \<le> q * T + T"
    using round53_between [of N] by (simp add: q_def T_def s_def)
  have "k * P \<le> round53 N" and "round53 N < P * Suc k"
    using r low up by (simp_all add: mult.commute)
  then have "round53 N div P = k"
    by (intro div_nat_eqI) (simp_all add: mult.commute)
  then show ?thesis
    by (simp add: N_def P_def k_def)
qed

lemma inflate_lwork_small:
  assumes "0 \<le> L" and "L < 2 ^ 31"
  shows "inflate_lwork L = L + L div 100"
proof (cases "L = 0")
  case True
  then show ?thesis
    by (simp add: inflate_lwork_def float_mul_1_01_def py_int_def)
next
  case False
  then have pos: "0 < L"
    using assms by simp
  have n: "nat L < 2 ^ 31"
    using assms by (simp add: nat_less_iff)
  have "real (round53 (nat L * c101)) / 2 ^ 52
          = real (round53 (nat L * c101)) / real (2 ^ 52)"
    by simp
  then have "\<lfloor>real (round53 (nat L * c101)) / 2 ^ 52\<rfloor> = int (round53 (nat L * c101) div 2 ^ 52)"
    by (simp only: floor_divide_of_nat_eq)
  also have "\<dots> = int (nat L + nat L div 100)"
    by (simp only: round53_c101 [OF n])
  also have "\<dots> = L + L div 100"
    using pos by (simp add: zdiv_int)
  finally show ?thesis
    using pos by (simp add: inflate_lwork_def float_mul_1_01_def py_int_def)
qed

text \<open>
  Claim C8. For a square \<open>a\<close>, \<open>inv\<close> calls the LU factorization, and when that
  succeeds it asks the kernel for the work-space size of the inversion step; when the
  query succeeds it calls the inversion kernel with the size \<open>int(1.01 * lwork)\<close>,
  always. So the inversion kernel is never called without the query before it, nor with
  a size that is not the inflated one. When the factorization fails neither is called,
  and when the query fails the inversion is not called. For a size from 0 to below
  \<open>2 ^ 31\<close> the inflated size is the size plus one hundredth of it, rounded down.
\<close>

theorem inv_workspace_inflated:
  assumes v: "asarray_validated w a = (w1, a1)"
      and sq: "shape (heap w1 ! a1) = [n, n]"
      and oa: "ow_a = (overwrite_a \<or> datacopied a1 a)"
      and f: "getrf K (heap w1 ! a1) = (lu, piv, info1)"
      and q: "getri_lwork K n = (lw, info2)"
      and g: "getri K lu piv (inflate_lwork (py_int lw)) = (inv_a, info3)"
  shows "events (snd (inv_matrix K w a overwrite_a)) =
           events w @
             [Lookup [''getrf'', ''getri'', ''getri_lwork''], Call (Getrf a1 ow_a)] @
             (if info1 = 0 then
                [Call (Getri_lwork n)] @
                (if info2 = 0 then [Call (Getri lu piv (inflate_lwork (py_int lw)) True)] else [])
              else [])
       \<and> fst (inv_matrix K w a overwrite_a) =
           (if info1 = 0 then
              (if info2 = 0 then inv_status info3 (Some inv_a)
               else Inl (ValueError ''internal getri work space query failed: %d'' [IntArg info2]))
            else inv_status info1 None)
       \<and> (0 \<le> py_int lw \<and> py_int lw < 2 ^ 31 \<longrightarrow>
            inflate_lwork (py_int lw) = py_int lw + py_int lw div 100)"
proof -
  have ev: "events w1 = events w"
    using v by (rule events_asarray_validated)
  have e: "events (snd (inv_matrix K w a overwrite_a)) =
           events w @
             [Lookup [''getrf'', ''getri'', ''getri_lwork''], Call (Getrf a1 ow_a)] @
             (if info1 = 0 then
                [Call (Getri_lwork n)] @
                (if info2 = 0 then [Call (Getri lu piv (inflate_lwork (py_int lw)) True)] else [])
              else [])"
    using v sq oa f q g ev
    by (simp add: inv_matrix_def Let_def log_event_def)
  have r: "fst (inv_matrix K w a overwrite_a) =
           (if info1 = 0 then
              (if info2 = 0 then inv_status info3 (Some inv_a)
               else Inl (ValueError ''internal getri work space query failed: %d'' [IntArg info2]))
            else inv_status info1 None)"
    using v sq oa f q g
    by (simp add: inv_matrix_def Let_def log_event_def)
  show ?thesis
    using e r inflate_lwork_small by blast
qed

theorem inv_workspace_inflated_witness:
  "asarray_validated w0 (NdRef 0) = (w0, 0)
   \<and> shape (heap w0 ! 0) = [1, 1]
   \<and> getrf K0 (heap w0 ! 0) = (Arr2 1 [[2]], [], 0)
   \<and> getri_lwork K0 1 = (200, 0)
   \<and> 0 \<le> py_int 200 \<and> py_int 200 < 2 ^ 31
   \<and> inflate_lwork (py_int 200) = 202
   \<and> getri K0 (Arr2 1 [[2]]) [] 202 = (Arr2 1 [[2]], 0)
   \<and> events (snd (inv_matrix K0 w0 (NdRef 0) False)) =
        [Lookup [''getrf'', ''getri'', ''getri_lwork''],
         Call (Getrf 0 False), Call (Getri_lwork 1),
         Call (Getri (Arr2 1 [[2]]) [] 202 True)]
   \<and> fst (inv_matrix K0 w0 (NdRef 0) False) = Inr (Arr2 1 [[2]])"
proof -
  have p: "py_int 200 = 200"
    using py_int_of_int [of 200] by simp
  have h1: "asarray_validated w0 (NdRef 0) = (w0, 0)"
    by (simp add: asarray_validated_def)
  have h2: "shape (heap w0 ! 0) = [1, 1]"
    by (simp add: w0_def)
  have h3: "getrf K0 (heap w0 ! 0) = (Arr2 1 [[2]], [], 0)"
    by (simp add: K0_def w0_def)
  have h4: "getri_lwork K0 1 = (200, 0)"
    by (simp add: K0_def)
  have h5: "getri K0 (Arr2 1 [[2]]) [] (inflate_lwork (py_int 200)) = (Arr2 1 [[2]], 0)"
    by (simp add: K0_def)
  note t = inv_workspace_inflated [OF h1 h2 refl h3 h4 h5, of False]
  have i: "inflate_lwork (py_int 200) = 202"
    using t [THEN conjunct2, THEN conjunct2] p by simp
  have e: "events (snd (inv_matrix K0 w0 (NdRef 0) False)) =
        [Lookup [''getrf'', ''getri'', ''getri_lwork''],
         Call (Getrf 0 False), Call (Getri_lwork 1),
         Call (Getri (Arr2 1 [[2]]) [] 202 True)]"
    using t [THEN conjunct1] i by (simp add: w0_def datacopied_def)
  have r: "fst (inv_matrix K0 w0 (NdRef 0) False) = Inr (Arr2 1 [[2]])"
    using t [THEN conjunct2, THEN conjunct1] by (simp add: inv_status_def)
  show ?thesis
    using h1 h2 h3 h4 h5 p i e r by simp
qed

section \<open>lstsq: the driver name\<close>

text \<open>
  Claim C10. With a driver name that is none of \<open>gelsd\<close>, \<open>gelsy\<close>, \<open>gelss\<close>,
  \<open>lstsq\<close> raises \<open>ValueError\<close> whatever its other arguments are; no kernel has
  been looked up or called by then, and every buffer of the caller's store holds what it
  held before.
\<close>

theorem lstsq_unknown_driver:
  assumes "lapack_driver \<notin> set driver_names"
  shows "(\<exists>msg args. fst (lstsq K w a b cond overwrite_a overwrite_b lapack_driver)
             = Inl (ValueError msg args))
    \<and> events (snd (lstsq K w a b cond overwrite_a overwrite_b lapack_driver)) = events w
    \<and> take (length (heap w))
         (heap (snd (lstsq K w a b cond overwrite_a overwrite_b lapack_driver))) = heap w"
proof -
  obtain w1 a1 where v1: "asarray_validated w a = (w1, a1)" by force
  obtain w2 b1 where v2: "asarray_validated w1 b = (w2, b1)" by force
  have ev: "events w2 = events w"
    using v1 v2 by (simp add: events_asarray_validated)
  have hp: "take (length (heap w)) (heap w2) = heap w"
    using v1 v2 by (rule heap_asarray_validated2)
  have r: "lstsq K w a b cond overwrite_a overwrite_b lapack_driver =
      (if length (shape (heap w2 ! a1)) \<noteq> 2 then (Inl (ValueError ''expected matrix'' []), w2)
       else if shape (heap w2 ! a1) ! 0 \<noteq> shape (heap w2 ! b1) ! 0 then
         (Inl (ValueError ''incompatible dimensions'' []), w2)
       else (Inl (ValueError (''LAPACK driver '' @ [CHR 0x22] @ ''%s'' @ [CHR 0x22] @ ''is not found'')
                   [StrArg lapack_driver]), w2))"
    using assms v1 v2 by (simp add: lstsq_def Let_def)
  show ?thesis
    unfolding r using ev hp by auto
qed

theorem lstsq_unknown_driver_witness:
  "''gelsx'' \<notin> set driver_names
   \<and> fst (lstsq K0 w0 (NdRef 0) (NdRef 1) None False False ''gelsx'')
       = Inl (ValueError (''LAPACK driver '' @ [CHR 0x22] @ ''%s'' @ [CHR 0x22] @ ''is not found'')
               [StrArg ''gelsx''])
   \<and> events (snd (lstsq K0 w0 (NdRef 0) (NdRef 1) None False False ''gelsx'')) = events w0
   \<and> take (length (heap w0))
        (heap (snd (lstsq K0 w0 (NdRef 0) (NdRef 1) None False False ''gelsx''))) = heap w0"
proof -
  have d: "''gelsx'' \<notin> set driver_names"
    by (simp add: driver_names_def)
  have "fst (lstsq K0 w0 (NdRef 0) (NdRef 1) None False False ''gelsx'')
       = Inl (ValueError (''LAPACK driver '' @ [CHR 0x22] @ ''%s'' @ [CHR 0x22] @ ''is not found'')
               [StrArg ''gelsx''])"
    using d by (simp add: lstsq_def Let_def w0_def asarray_validated_def)
  then show ?thesis
    using d lstsq_unknown_driver [OF d, of K0 w0 "NdRef 0" "NdRef 1" None False False]
    by simp
qed

section \<open>solveh_banded: what the tridiagonal kernel is given\<close>

text \<open>
  Claim C4, as amended. For a Hermitian-banded \<open>ab\<close> of two storage rows,
  \<open>solveh_banded\<close> looks up and calls the positive-definite tridiagonal kernel
  \<open>ptsv\<close>. The diagonal it passes is the real part of the main-diagonal row: row 0 in
  lower form, row 1 in upper form. The off-diagonal is conjugated exactly when the input
  is in upper form (\<open>lower\<close> is false): there it is the conjugate of row 0 without its
  first entry; in lower form it is row 1 without its last entry, as stored.
\<close>

theorem solveh_banded_tridiagonal:
  assumes v1: "asarray_validated w ab = (w1, a1)"
      and v2: "asarray_validated w1 b = (w2, b1)"
      and two: "heap w2 ! a1 = Arr2 nc [r0, r1]"
      and dim: "shape (heap w2 ! b1) ! 0 = nc"
      and oa: "ow_ab = (overwrite_ab \<or> datacopied a1 ab)"
      and ob: "ow_b = (overwrite_b \<or> datacopied b1 b)"
  shows "events (snd (solveh_banded K w ab b overwrite_ab overwrite_b lower)) =
           events w @
             [Lookup [''ptsv''],
              Call (Ptsv (map Re (if lower then r0 else r1))
                         (if lower then butlast r1 else map cnj (tl r0))
                         b1 ow_ab ow_ab ow_b)]"
proof -
  have ev: "events w2 = events w"
    using v1 v2 by (simp add: events_asarray_validated)
  show ?thesis
    using v1 v2 two dim oa ob ev
    by (simp add: solveh_banded_def Let_def log_event_def split: prod.splits)
qed

theorem solveh_banded_tridiagonal_witness:
  "asarray_validated wh_up (NdRef 0) = (wh_up, 0)
   \<and> asarray_validated wh_up (NdRef 1) = (wh_up, 1)
   \<and> heap wh_up ! 0 = Arr2 2 [[0, - \<i>], [2, 2]]
   \<and> shape (heap wh_up ! 1) ! 0 = 2
   \<and> events (snd (solveh_banded K0 wh_up (NdRef 0) (NdRef 1) False False False)) =
       [Lookup [''ptsv''], Call (Ptsv [2, 2] [\<i>] 1 False False False)]"
  using solveh_banded_tridiagonal [of wh_up "NdRef 0" wh_up 0 "NdRef 1" wh_up 1 2
      "[0, - \<i>]" "[2, 2]" False False False False K0 False]
  by (simp add: wh_up_def asarray_validated_def datacopied_def)

text \<open>
  The claim as stated has the off-diagonal conjugated in lower form. In lower form, with
  the sub-diagonal entry \<open>\<i>\<close>, the kernel is given \<open>\<i>\<close> itself, which is not its
  conjugate.
\<close>

theorem solveh_banded_lower_counterexample:
  "events (snd (solveh_banded K0 wh (NdRef 0) (NdRef 1) False False True)) =
       [Lookup [''ptsv''], Call (Ptsv [2, 2] [\<i>] 1 False False False)]
   \<and> map cnj [\<i>] \<noteq> [\<i>]"
  by (simp add: solveh_banded_def Let_def log_event_def wh_def asarray_validated_def
      datacopied_def K0_def complex_eq_iff)

section \<open>solve_banded: which buffers the kernels may write\<close>

lemma nth_asarray_validated:
  assumes "asarray_validated w a = (w1, a1)" and "p < length (heap w)"
  shows "heap w1 ! p = heap w ! p"
  using assms by (auto simp: asarray_validated_def nth_append split: array_like.splits)

lemma fresh_asarray_validated:
  assumes "asarray_validated w a = (w1, a1)" and "a1 < length (heap w)"
  shows "a = NdRef a1"
  using assms by (auto simp: asarray_validated_def split: array_like.splits)

text \<open>The general branch, unfolded for a two-dimensional \<open>ab\<close> of the right shape.\<close>

lemma solve_banded_general_unfold:
  assumes v1: "asarray_validated w ab = (w1, a1)"
      and v2: "asarray_validated w1 b = (w2, b1)"
      and a2d: "heap w2 ! a1 = Arr2 nc rs"
      and dim: "shape (heap w2 ! b1) ! 0 = nc"
      and rows: "length rs = l + u + 1"
      and gen: "\<not> (l = 1 \<and> u = 1)"
      and ob: "ow_b = (overwrite_b \<or> datacopied b1 b)"
      and a2v: "a2v = Arr2 nc (replicate l (replicate nc 0) @ rs)"
      and k: "gbsv K l u a2v ((heap w2 @ [a2v]) ! b1) = (lu, piv, x, info)"
  shows "solve_banded K w (l, u) ab b overwrite_ab overwrite_b =
           (banded_status info x,
            \<lparr>heap = donate ow_b b1 x (donate True (length (heap w2)) lu (heap w2 @ [a2v])),
             events = events w @
               [Lookup [''gbsv''], Call (Gbsv l u (length (heap w2)) a2v b1 True ow_b)]\<rparr>)"
proof -
  have ev: "events w2 = events w"
    using v1 v2 by (simp add: events_asarray_validated)
  have g: "\<not> (l = u \<and> u = 1)"
    using gen by auto
  have "min l (Suc (2 * l + u)) = l"
    by simp
  then have z: "take l (replicate (Suc (2 * l + u)) (replicate nc (0::complex)))
                  = replicate l (replicate nc 0)"
    by (simp only: take_replicate)
  have "solve_banded_gbsv K w2 l u a1 b1 ow_b =
           (banded_status info x,
            \<lparr>heap = donate ow_b b1 x (donate True (length (heap w2)) lu (heap w2 @ [a2v])),
             events = events w @
               [Lookup [''gbsv''], Call (Gbsv l u (length (heap w2)) a2v b1 True ow_b)]\<rparr>)"
    using a2d k ev unfolding a2v
    by (simp add: solve_banded_gbsv_def Let_def log_event_def z
        del: replicate_Suc take_replicate)
  then show ?thesis
    using v1 v2 a2d dim rows g ob
    by (auto simp add: solve_banded_def Let_def)
qed

text \<open>The general branch for a one-dimensional \<open>ab\<close>: the lookup, then the failure.\<close>

lemma solve_banded_general_1d:
  assumes v1: "asarray_validated w ab = (w1, a1)"
      and v2: "asarray_validated w1 b = (w2, b1)"
      and a1d: "heap w2 ! a1 = Arr1 xs"
      and c1: "last (shape (heap w2 ! a1)) = shape (heap w2 ! b1) ! 0"
      and c2: "l + u + 1 = shape (heap w2 ! a1) ! 0"
      and gen: "\<not> (l = 1 \<and> u = 1)"
  shows "solve_banded K w (l, u) ab b overwrite_ab overwrite_b =
           (Inl (IndexError ''tuple index out of range''),
            \<lparr>heap = heap w2, events = events w @ [Lookup [''gbsv'']]\<rparr>)"
proof -
  have ev: "events w2 = events w"
    using v1 v2 by (simp add: events_asarray_validated)
  have g: "\<not> (l = u \<and> u = 1)"
    using gen by auto
  have "solve_banded_gbsv K w2 l u a1 b1 (overwrite_b \<or> datacopied b1 b) =
           (Inl (IndexError ''tuple index out of range''),
            \<lparr>heap = heap w2, events = events w @ [Lookup [''gbsv'']]\<rparr>)"
    using a1d ev by (simp add: solve_banded_gbsv_def Let_def log_event_def)
  then show ?thesis
    using v1 v2 c1 c2 g
    by (auto simp add: solve_banded_def Let_def)
qed

text \<open>
  Claim C9, as amended. On the general path of \<open>solve_banded\<close> (the shape checks
  pass, and not \<open>l = 1\<close> and \<open>u = 1\<close>) the banded-LU kernel \<open>gbsv\<close> is the only
  kernel looked up. For a two-dimensional \<open>ab\<close> its matrix argument is a new array,
  at an address that is not in the caller's store, of \<open>2l+u+1\<close> rows: \<open>l\<close> rows
  of zeros followed by the rows of \<open>ab\<close>; it is donated for overwriting whatever
  \<open>overwrite_ab\<close> says. The whole call does not depend on \<open>overwrite_ab\<close>. Of the
  caller's buffers none is written, except the one the caller passed as \<open>b\<close> with
  \<open>overwrite_b\<close> set. So the caller's \<open>ab\<close> buffer is unchanged unless the caller
  passed that same buffer as \<open>b\<close> and set \<open>overwrite_b\<close>.
\<close>

theorem solve_banded_general_frame:
  assumes v1: "asarray_validated w ab = (w1, a1)"
      and v2: "asarray_validated w1 b = (w2, b1)"
      and c1: "last (shape (heap w2 ! a1)) = shape (heap w2 ! b1) ! 0"
      and c2: "l + u + 1 = shape (heap w2 ! a1) ! 0"
      and gen: "\<not> (l = 1 \<and> u = 1)"
      and ob: "ow_b = (overwrite_b \<or> datacopied b1 b)"
  shows "(\<forall>nc rs. heap w2 ! a1 = Arr2 nc rs \<longrightarrow>
            events (snd (solve_banded K w (l, u) ab b overwrite_ab overwrite_b)) =
              events w @
                [Lookup [''gbsv''],
                 Call (Gbsv l u (length (heap w2))
                         (Arr2 nc (replicate l (replicate nc 0) @ rs)) b1 True ow_b)]
            \<and> length (replicate l (replicate nc (0::complex)) @ rs) = 2 * l + u + 1)
       \<and> length (heap w) \<le> length (heap w2)
       \<and> solve_banded K w (l, u) ab b overwrite_ab overwrite_b =
           solve_banded K w (l, u) ab b (\<not> overwrite_ab) overwrite_b
       \<and> (\<forall>p < length (heap w). \<not> (b = NdRef p \<and> overwrite_b) \<longrightarrow>
            heap (snd (solve_banded K w (l, u) ab b overwrite_ab overwrite_b)) ! p = heap w ! p)"
proof -
  have len: "length (heap w) \<le> length (heap w2)"
    using length_asarray_validated [OF v1] length_asarray_validated [OF v2] by simp
  have same: "heap w2 ! p = heap w ! p" if p: "p < length (heap w)" for p
  proof -
    have "p < length (heap w1)"
      using p length_asarray_validated [OF v1] by simp
    then show ?thesis
      using nth_asarray_validated [OF v1 p] nth_asarray_validated [OF v2] by simp
  qed
  show ?thesis
  proof (cases "heap w2 ! a1")
    case (Arr1 xs)
    note u1 = solve_banded_general_1d [OF v1 v2 Arr1 c1 c2 gen]
    show ?thesis
      using len same by (simp add: u1 Arr1)
  next
    case (Arr2 nc rs)
    have dim: "shape (heap w2 ! b1) ! 0 = nc" and rows: "length rs = l + u + 1"
      using c1 c2 by (simp_all add: Arr2)
    obtain lu piv x info where
      k: "gbsv K l u (Arr2 nc (replicate l (replicate nc 0) @ rs))
            ((heap w2 @ [Arr2 nc (replicate l (replicate nc 0) @ rs)]) ! b1) = (lu, piv, x, info)"
      using prod_cases4 by blast
    note u1 = solve_banded_general_unfold [OF v1 v2 Arr2 dim rows gen ob refl k]
    have frame: "heap (snd (solve_banded K w (l, u) ab b overwrite_ab overwrite_b)) ! p = heap w ! p"
      if p: "p < length (heap w)" and nb: "\<not> (b = NdRef p \<and> overwrite_b)" for p
    proof -
      have p1: "p < length (heap w1)"
        using p length_asarray_validated [OF v1] by simp
      have p2: "p < length (heap w2)"
        using p len by simp
      have nd: "\<not> (ow_b \<and> b1 = p)"
      proof
        assume c: "ow_b \<and> b1 = p"
        then have "b = NdRef p"
          using fresh_asarray_validated [OF v2] p1 by simp
        then show False
          using c nb ob by (simp add: datacopied_def)
      qed
      have "donate ow_b b1 x (donate True (length (heap w2)) lu
              (heap w2 @ [Arr2 nc (replicate l (replicate nc 0) @ rs)])) ! p = heap w2 ! p"
        using nd p2 by (auto simp: donate_def nth_append)
      then show ?thesis
        using same [OF p] by (simp add: u1 [of overwrite_ab])
    qed
    show ?thesis
      using len rows frame by (simp add: u1 Arr2)
  qed
qed

theorem solve_banded_general_frame_witness:
  "asarray_validated wb (NdRef 0) = (wb, 0)
   \<and> asarray_validated wb (NdRef 1) = (wb, 1)
   \<and> last (shape (heap wb ! 0)) = shape (heap wb ! 1) ! 0
   \<and> 1 + 0 + 1 = shape (heap wb ! 0) ! 0
   \<and> \<not> ((1::nat) = 1 \<and> (0::nat) = 1)
   \<and> heap wb ! 0 = Arr2 2 [[2, 3], [1, 1]]
   \<and> (0::nat) < length (heap wb)
   \<and> \<not> (NdRef 1 = NdRef 0 \<and> True)
   \<and> events (snd (solve_banded K_zero wb (1, 0) (NdRef 0) (NdRef 1) True True)) =
        [Lookup [''gbsv''],
         Call (Gbsv 1 0 2 (Arr2 2 [[0, 0], [2, 3], [1, 1]]) 1 True True)]
   \<and> heap (snd (solve_banded K_zero wb (1, 0) (NdRef 0) (NdRef 1) True True)) ! 0
        = Arr2 2 [[2, 3], [1, 1]]"
proof -
  have h1: "asarray_validated wb (NdRef 0) = (wb, 0)"
    and h2: "asarray_validated wb (NdRef 1) = (wb, 1)"
    by (simp_all add: asarray_validated_def)
  have h3: "last (shape (heap wb ! 0)) = shape (heap wb ! 1) ! 0"
    and h4: "1 + 0 + 1 = shape (heap wb ! 0) ! 0"
    and h6: "heap wb ! 0 = Arr2 2 [[2, 3], [1, 1]]"
    and h7: "(0::nat) < length (heap wb)"
    by (simp_all add: wb_def)
  have h5: "\<not> ((1::nat) = 1 \<and> (0::nat) = 1)"
    and h8: "\<not> (NdRef 1 = NdRef 0 \<and> True)"
    by simp_all
  have h9: "True = (True \<or> datacopied 1 (NdRef 1))"
    by simp
  note t = solve_banded_general_frame [OF h1 h2 h3 h4 h5 h9, of K_zero True]
  have e: "events (snd (solve_banded K_zero wb (1, 0) (NdRef 0) (NdRef 1) True True)) =
        [Lookup [''gbsv''],
         Call (Gbsv 1 0 2 (Arr2 2 [[0, 0], [2, 3], [1, 1]]) 1 True True)]"
    using t [THEN conjunct1, rule_format, OF h6, THEN conjunct1]
    by (simp add: wb_def eval_nat_numeral)
  have "heap (snd (solve_banded K_zero wb (1, 0) (NdRef 0) (NdRef 1) True True)) ! 0 = heap wb ! 0"
    using t [THEN conjunct2, THEN conjunct2, THEN conjunct2, rule_format, OF h7 h8] .
  then show ?thesis
    using h1 h2 h3 h4 h5 h6 h7 h8 e by simp
qed

text \<open>
  The claim as stated has the caller's \<open>ab\<close> buffer never written on the general
  path. When the caller passes one buffer as \<open>ab\<close> and as \<open>b\<close> and sets
  \<open>overwrite_b\<close>, the kernel's solution is written into it.
\<close>

theorem solve_banded_alias_counterexample:
  "heap wb ! 0 = Arr2 2 [[2, 3], [1, 1]]
   \<and> heap (snd (solve_banded K_zero wb (1, 0) (NdRef 0) (NdRef 0) False True)) ! 0
        = Arr2 2 [[0, 0], [0, 0]]"
  by (simp add: solve_banded_def solve_banded_gbsv_def Let_def log_event_def wb_def
      asarray_validated_def datacopied_def donate_def K_zero_def K0_def banded_status_def)

text \<open>
  On the tridiagonal path the permission for the three diagonals of \<open>ab\<close> is the
  caller's flag or whether \<open>b\<close> was copied.
\<close>

lemma solve_banded_tridiagonal_permissions:
  assumes v1: "asarray_validated w ab = (w1, a1)"
      and v2: "asarray_validated w1 b = (w2, b1)"
      and a2d: "heap w2 ! a1 = Arr2 nc rs"
      and dim: "shape (heap w2 ! b1) ! 0 = nc"
      and rows: "length rs = 3"
      and f: "f = (overwrite_ab \<or> datacopied b1 b)"
  shows "events (snd (solve_banded K w (1, 1) ab b overwrite_ab overwrite_b)) =
           events w @
             [Lookup [''gtsv''],
              Call (Gtsv \<lparr>base = a1, vrow = 2, lo = 0, hi = nc - 1\<rparr>
                         \<lparr>base = a1, vrow = 1, lo = 0, hi = nc\<rparr>
                         \<lparr>base = a1, vrow = 0, lo = 1, hi = nc\<rparr>
                         b f f f (overwrite_b \<or> datacopied b1 b))]"
proof -
  have ev: "events w2 = events w"
    using v1 v2 by (simp add: events_asarray_validated)
  show ?thesis
    using v1 v2 a2d dim rows f ev
    by (simp add: solve_banded_def solve_banded_gtsv_def Let_def log_event_def
        split: prod.splits)
qed

text \<open>
  Claim C2 fails on the tridiagonal path. The caller passes an array object as \<open>ab\<close>
  and a list as \<open>b\<close>, with both overwrite flags false. The validated \<open>a1\<close> is the
  caller's own buffer (\<open>datacopied\<close> is false for it), yet the kernel is given
  permission to overwrite all three diagonals, which are views of that buffer, because
  line 226 asks whether \<open>b\<close> was copied; the caller's \<open>ab\<close> holds the kernel's
  output afterwards.
\<close>

theorem solve_banded_tridiagonal_overwrites_ab:
  "\<not> datacopied 0 (NdRef 0)
   \<and> heap wt ! 0 = Arr2 3 [[0, 1, 1], [4, 4, 4], [1, 1, 0]]
   \<and> solve_banded K_zero wt (1, 1) (NdRef 0) (PySeq (Arr1 [1, 2, 3])) False False =
     (Inr (Arr1 [0, 0, 0]),
      \<lparr>heap = [Arr2 3 [[0, 0, 0], [0, 0, 0], [0, 0, 0]], Arr1 [1, 2, 3]],
       events = [Lookup [''gtsv''],
                 Call (Gtsv \<lparr>base = 0, vrow = 2, lo = 0, hi = 2\<rparr>
                            \<lparr>base = 0, vrow = 1, lo = 0, hi = 3\<rparr>
                            \<lparr>base = 0, vrow = 0, lo = 1, hi = 3\<rparr>
                            (PySeq (Arr1 [1, 2, 3])) True True True True)]\<rparr>)"
  by (simp add: solve_banded_def solve_banded_gtsv_def Let_def log_event_def wt_def
      asarray_validated_def datacopied_def donate_def donate_like_def K_zero_def K0_def
      banded_status_def view_get_def view_put_def array_value_def eval_nat_numeral)

section \<open>lstsq: the drivers\<close>

text \<open>
  With the driver \<open>gelsd\<close> or \<open>gelsy\<close> and arguments of compatible shapes the
  driver is looked up, no kernel is called, and the \<open>return\<close> statement fails.
\<close>

lemma lstsq_other_drivers:
  assumes v1: "asarray_validated w a = (w1, a1)"
      and v2: "asarray_validated w1 b = (w2, b1)"
      and sa: "shape (heap w2 ! a1) = [m, n]"
      and sb: "shape (heap w2 ! b1) ! 0 = m"
      and d: "driver = ''gelsd'' \<or> driver = ''gelsy''"
  shows "fst (lstsq K w a b cond overwrite_a overwrite_b driver) = Inl (UnboundLocalError ''x'')
       \<and> events (snd (lstsq K w a b cond overwrite_a overwrite_b driver))
           = events w @ [Lookup [driver]]"
proof -
  have ev: "events w2 = events w"
    using v1 v2 by (simp add: events_asarray_validated)
  have dn: "driver \<in> set driver_names" and ng: "driver \<noteq> ''gelss''"
    using d by (auto simp: driver_names_def)
  have "lstsq K w a b cond overwrite_a overwrite_b driver
          = lstsq_run K w2 m n (if length (shape (heap w2 ! b1)) = 2 then shape (heap w2 ! b1) ! 1 else 1)
              a1 a b1 b cond overwrite_a overwrite_b driver"
    using v1 v2 sa sb dn by (simp add: lstsq_def Let_def)
  then show ?thesis
    using ng ev by (simp add: lstsq_run_def Let_def log_event_def split: prod.splits)
qed

text \<open>
  With the driver \<open>gelss\<close> and status 0 the four results are the kernel's, with the
  solution cut to \<open>n\<close> rows and the residues of lines 633 to 638: the array with no
  elements unless \<open>n < m\<close> and the rank is \<open>n\<close>.
\<close>

lemma lstsq_gelss_result:
  assumes v1: "asarray_validated w a = (w1, a1)"
      and v2: "asarray_validated w1 b = (w2, b1)"
      and sa: "shape (heap w2 ! a1) = [m, n]"
      and sb: "shape (heap w2 ! b1) ! 0 = m"
      and va: "a1 < length (heap w2)"
      and vb: "b1 < length (heap w2)"
      and nrhs: "nrhs = (if length (shape (heap w2 ! b1)) = 2 then shape (heap w2 ! b1) ! 1 else 1)"
      and B: "B = (if n > m then pad_rows n m nrhs (heap w2 ! b1) else heap w2 ! b1)"
      and q: "gelss K (heap w2 ! a1) B None (- 1) = (qv, qx, qs, qrank, wk # wks, qinfo)"
      and k: "gelss K (heap w2 ! a1) B cond (py_int (Re wk)) = (v, xr, s, rank, work', 0)"
  shows "fst (lstsq K w a b cond overwrite_a overwrite_b ''gelss'')
           = Inr (if n < m then row_take n xr else xr,
                  if n < m \<and> rank = int n then sum_abs2_axis0 (row_drop n xr) else Res1 [],
                  rank, s)"
proof -
  have dn: "''gelss'' \<in> set driver_names"
    by (simp add: driver_names_def)
  have r: "lstsq K w a b cond overwrite_a overwrite_b ''gelss''
          = lstsq_run K w2 m n nrhs a1 a b1 b cond overwrite_a overwrite_b ''gelss''"
    using v1 v2 sa sb dn nrhs by (simp add: lstsq_def Let_def)
  show ?thesis
  proof (cases "n > m")
    case True
    then show ?thesis
      using va vb q k unfolding r B
      by (simp add: lstsq_run_def lstsq_gelss_def lstsq_resids_def Let_def log_event_def
          nth_append)
  next
    case False
    then show ?thesis
      using va vb q k unfolding r B
      by (simp add: lstsq_run_def lstsq_gelss_def lstsq_resids_def Let_def log_event_def)
  qed
qed

text \<open>
  The residues of a two-dimensional raw output, column by column: the sum of the squared
  magnitudes of the rows given.
\<close>

lemma map2_add_upt:
  assumes "length r = nc"
  shows "map2 (+) (map g r) (map f [0..<nc]) = map (\<lambda>j. g (r ! j) + (f j :: real)) [0..<nc]"
  using assms by (intro nth_equalityI) simp_all

lemma sum_abs2_axis0_columns:
  assumes "\<forall>r \<in> set rs. length r = nc"
  shows "sum_abs2_axis0 (Arr2 nc rs) = Res1 (map (\<lambda>j. \<Sum>r\<leftarrow>rs. abs2 (r ! j)) [0..<nc])"
proof -
  have "foldr (\<lambda>r acc. map2 (+) (map abs2 r) acc) rs (replicate nc 0)
          = map (\<lambda>j. \<Sum>r\<leftarrow>rs. abs2 (r ! j)) [0..<nc]"
    using assms
  proof (induction rs)
    case Nil
    show ?case
      by (intro nth_equalityI) simp_all
  next
    case (Cons r rs)
    then have ih: "foldr (\<lambda>r acc. map2 (+) (map abs2 r) acc) rs (replicate nc 0)
          = map (\<lambda>j. \<Sum>r\<leftarrow>rs. abs2 (r ! j)) [0..<nc]"
      and len: "length r = nc"
      by simp_all
    show ?case
      by (simp add: ih map2_add_upt [OF len] del: upt.simps)
  qed
  then show ?thesis
    by simp
qed

text \<open>
  The residues have an element exactly when \<open>n < m\<close> and the rank is \<open>n\<close>, for a
  one-dimensional raw output and for a two-dimensional one with at least one column.
\<close>

lemma lstsq_resids_nonempty:
  shows "res_size (snd (lstsq_resids m n rank (Arr1 xs))) \<noteq> 0 \<longleftrightarrow> n < m \<and> rank = int n"
    and "0 < nc \<Longrightarrow> \<forall>r \<in> set rs. length r = nc \<Longrightarrow>
           res_size (snd (lstsq_resids m n rank (Arr2 nc rs))) \<noteq> 0 \<longleftrightarrow> n < m \<and> rank = int n"
proof -
  show "res_size (snd (lstsq_resids m n rank (Arr1 xs))) \<noteq> 0 \<longleftrightarrow> n < m \<and> rank = int n"
    by (simp add: lstsq_resids_def)
  assume nc: "0 < nc" and wf: "\<forall>r \<in> set rs. length r = nc"
  have "\<forall>r \<in> set (drop n rs). length r = nc"
    using wf by (meson in_set_dropD)
  then have "res_size (sum_abs2_axis0 (Arr2 nc (drop n rs))) = nc"
    by (simp only: sum_abs2_axis0_columns res_size.simps length_map length_upt diff_zero)
  then show "res_size (snd (lstsq_resids m n rank (Arr2 nc rs))) \<noteq> 0 \<longleftrightarrow> n < m \<and> rank = int n"
    using nc by (simp add: lstsq_resids_def)
qed

text \<open>
  Claim C1 fails for two of the three drivers. On a one-by-one system the drivers
  \<open>gelsd\<close> (the default) and \<open>gelsy\<close> are looked up and never called, and the
  \<open>return\<close> statement raises \<open>UnboundLocalError\<close>; only \<open>gelss\<close> returns the
  four results.
\<close>

theorem lstsq_default_driver_unbound:
  "lstsq K0 w0 (NdRef 0) (NdRef 1) None False False ''gelsd''
     = (Inl (UnboundLocalError ''x''), \<lparr>heap = heap w0, events = [Lookup [''gelsd'']]\<rparr>)
   \<and> lstsq K0 w0 (NdRef 0) (NdRef 1) None False False ''gelsy''
     = (Inl (UnboundLocalError ''x''), \<lparr>heap = heap w0, events = [Lookup [''gelsy'']]\<rparr>)
   \<and> lstsq K0 w0 (NdRef 0) (NdRef 1) None False False ''gelss''
     = (Inr (Arr1 [4], Res1 [], 0, []),
        \<lparr>heap = heap w0,
         events = [Lookup [''gelss''], Call (Gelss_query 0 1),
                   Call (Gelss 0 1 None 200 False False)]\<rparr>)"
  by (simp add: lstsq_def lstsq_run_def lstsq_gelss_def lstsq_resids_def Let_def log_event_def
      w0_def asarray_validated_def datacopied_def driver_names_def K0_def donate_def
      py_int_def)

text \<open>
  Claim C5 fails with the default driver. For a three-by-one matrix of full column rank
  the claim has a residue for the one right-hand side; \<open>lstsq\<close> with \<open>gelsd\<close>
  returns no residues, it raises \<open>UnboundLocalError\<close>.
\<close>

theorem lstsq_overdetermined_no_residues:
  "shape (heap wl ! 0) = [3, 1]
   \<and> lstsq K0 wl (NdRef 0) (NdRef 1) None False False ''gelsd''
     = (Inl (UnboundLocalError ''x''), \<lparr>heap = heap wl, events = [Lookup [''gelsd'']]\<rparr>)"
  by (simp add: lstsq_def lstsq_run_def Let_def log_event_def
      wl_def asarray_validated_def datacopied_def driver_names_def)

section \<open>The pseudo-inverses: the rank without a cutoff\<close>

lemma np_max_Max:
  assumes "xs \<noteq> []"
  shows "np_max xs = Inr (Max (set xs))"
proof -
  obtain y ys where c: "xs = y # ys"
    using assms by (cases xs) auto
  have "Max (set (y # ys)) = fold max ys y"
    by (rule Max.set_eq_fold)
  then show ?thesis
    by (simp only: c np_max_def list.case)
qed

lemma np_max_Nil: "np_max [] = Inl zero_size_error"
  by (simp add: np_max_def)

text \<open>
  The default cutoff of the code is the one the spec states: both products are exact.
\<close>

lemma default_cond_None: "default_cond dt None = Inr (spec_default_cutoff dt)"
  by (cases dt)
    (simp_all add: default_cond_def factor_def finfo_eps_def spec_default_cutoff_def
      float_mul_def round_sig_def ilog2_def bit_length.simps Let_def)

text \<open>
  Called with no cutoff, \<open>pinv2\<close> and \<open>pinvh\<close> count the values strictly above the
  default cutoff scaled by the largest value; with no values at all, both fail in
  \<open>np.max\<close>.
\<close>

lemma pinv2_rank_default:
  assumes "svd a = Inr (dt, s)"
  shows "pinv2_rank svd a None None =
           (if s = [] then Inl zero_size_error
            else Inr (length (filter
                   (\<lambda>x. x > threshold dt (spec_default_cutoff dt) (Max (set s))) s)))"
  using assms
  by (simp add: pinv2_rank_def pick_cond_def default_cond_None np_max_Max np_max_Nil)

lemma pinvh_rank_default:
  assumes "eigh a lower = Inr (lam, dt)"
  shows "pinvh_rank eigh a None None lower =
           (if lam = [] then Inl zero_size_error
            else Inr (length (filter
                   (\<lambda>x. \<bar>x\<bar> > threshold dt (spec_default_cutoff dt) (Max (set (map abs lam)))) lam)))"
  using assms
  by (simp add: pinvh_rank_def pick_cond_def default_cond_None np_max_Max np_max_Nil)

lemma count_above_mset:
  assumes "mset (map abs lam) = mset s"
  shows "length (filter (\<lambda>x. \<bar>x\<bar> > t) lam) = length (filter (\<lambda>x. x > t) (s::real list))"
proof -
  have "length (filter (\<lambda>x. \<bar>x\<bar> > t) lam) = length (filter (\<lambda>x. x > t) (map abs lam))"
    by (simp add: filter_map comp_def)
  also have "\<dots> = size (filter_mset (\<lambda>x. x > t) (mset (map abs lam)))"
    by (simp only: mset_filter [symmetric] size_mset)
  also have "\<dots> = length (filter (\<lambda>x. x > t) s)"
    by (simp only: assms mset_filter [symmetric] size_mset)
  finally show ?thesis .
qed

text \<open>
  So the ranks of \<open>pinv2\<close> and \<open>pinvh\<close> agree on a matrix whose singular values are
  the magnitudes of its eigenvalues, at the same precision.
\<close>

lemma pinv2_pinvh_rank_agree:
  assumes sv: "svd a = Inr (dt, s)"
      and ev: "eigh a lower = Inr (lam, dt)"
      and m: "mset (map abs lam) = mset s"
  shows "pinvh_rank eigh a None None lower = pinv2_rank svd a None None"
proof -
  note r2 = pinv2_rank_default [of svd a, OF sv]
  note rh = pinvh_rank_default [of eigh a lower, OF ev]
  have st: "set (map abs lam) = set s"
    using m by (metis set_mset_mset)
  have e: "(lam = []) = (s = [])"
    using m by (metis mset_zero_iff map_is_Nil_conv)
  show ?thesis
    using count_above_mset [OF m] st e by (simp only: r2 rh)
qed

text \<open>
  The cutoff is the rounded product. Of the two singular values of \<open>svd2\<close> the second
  is above the exact product of the default cutoff and the first, and not above the
  rounded one: the rank is 1.
\<close>

lemma pinv2_rank_rounded_product:
  "(21875 / 2 ^ 47 :: real) > spec_default_cutoff Float64 * (3152519739159347 / 2 ^ 52)
   \<and> pinv2_rank svd2 a None None = Inr 1"
proof -
  have t: "threshold Float64 (spec_default_cutoff Float64) (3152519739159347 / 4503599627370496)
             = 21875 / 140737488355328"
    by (simp add: threshold_def spec_default_cutoff_def float_mul_def round_sig_def ilog2_def
        bit_length.simps Let_def)
  have m: "np_max [3152519739159347 / 4503599627370496, 21875 / 140737488355328] = Inr (3152519739159347 / 4503599627370496)"
    by (simp add: np_max_def)
  have r: "pinv2_rank svd2 a None None = Inr 1"
    by (simp add: pinv2_rank_def pick_cond_def svd2_def default_cond_None m t)
  have x: "(21875 / 2 ^ 47 :: real) > spec_default_cutoff Float64 * (3152519739159347 / 2 ^ 52)"
    by (simp add: spec_default_cutoff_def)
  show ?thesis
    using x r by simp
qed

text \<open>
  \<open>pinv\<close> holds no cutoff of its own: it hands its cutoff to \<open>lstsq\<close> and leaves
  the driver at its default, \<open>gelsd\<close>. For every matrix, whatever the cutoff, the driver
  is looked up, no kernel is called, and \<open>pinv\<close> ends in the \<open>UnboundLocalError\<close> of
  \<open>lstsq\<close>: it returns neither a matrix nor a rank.
\<close>

lemma pinv_unbound:
  assumes v: "asarray_validated w a = (w1, a1)"
      and ok: "a1 < length (heap w1)"
      and sa: "shape (heap w1 ! a1) = [m, n]"
  shows "fst (pinv K w a cond rcond return_rank) = Inl (UnboundLocalError ''x'')
       \<and> events (snd (pinv K w a cond rcond return_rank)) = events w @ [Lookup [''gelsd'']]"
proof -
  define w2 where "w2 = w1\<lparr>heap := heap w1 @ [identity m]\<rparr>"
  have v1: "asarray_validated w2 (NdRef a1) = (w2, a1)"
    by (simp add: asarray_validated_def)
  have v2: "asarray_validated w2 (NdRef (length (heap w1))) = (w2, length (heap w1))"
    by (simp add: asarray_validated_def)
  have s1: "shape (heap w2 ! a1) = [m, n]"
    using ok sa by (simp add: w2_def nth_append)
  have s2: "shape (heap w2 ! length (heap w1)) ! 0 = m"
    by (simp add: w2_def identity_def)
  have ev: "events w2 = events w"
    using v by (simp add: w2_def events_asarray_validated)
  note l = lstsq_other_drivers [OF v1 v2 s1 s2, of "''gelsd''" K "pick_cond cond rcond" False False]
  have p: "pinv K w a cond rcond return_rank =
             (case lstsq K w2 (NdRef a1) (NdRef (length (heap w1))) (pick_cond cond rcond)
                     False False ''gelsd'' of
                (Inl e, w3) \<Rightarrow> (Inl e, w3)
              | (Inr (x, resids, rank, s), w3) \<Rightarrow>
                  (Inr (x, if return_rank then Some rank else None), w3))"
    using v sa by (simp add: pinv_def Let_def w2_def)
  obtain r w3 where lr: "lstsq K w2 (NdRef a1) (NdRef (length (heap w1))) (pick_cond cond rcond)
                             False False ''gelsd'' = (r, w3)"
    by (cases "lstsq K w2 (NdRef a1) (NdRef (length (heap w1))) (pick_cond cond rcond)
                 False False ''gelsd''")
  have r: "r = Inl (UnboundLocalError ''x'')" and e3: "events w3 = events w2 @ [Lookup [''gelsd'']]"
    using l lr by simp_all
  show ?thesis
    using r e3 ev by (simp add: p lr)
qed

text \<open>
  Claim C3 fails for \<open>pinv\<close>. On the matrix with diagonal 3, 0 in double precision,
  with no cutoff given, \<open>pinv2\<close> and \<open>pinvh\<close> find rank 1 by the default cutoff, and
  \<open>pinv\<close>, asked for the rank, looks the driver \<open>gelsd\<close> up, calls no kernel and
  raises \<open>UnboundLocalError\<close>: there is no third rank to agree with.
\<close>

theorem pinv_default_no_rank:
  "pinv K0 wp (NdRef 0) None None True
     = (Inl (UnboundLocalError ''x''),
        \<lparr>heap = heap wp @ [identity 2], events = [Lookup [''gelsd'']]\<rparr>)
   \<and> pinv2_rank svd1 (heap wp ! 0) None None = Inr 1
   \<and> pinvh_rank eigh1 (heap wp ! 0) None None True = Inr 1"
proof -
  have p: "pinv K0 wp (NdRef 0) None None True
     = (Inl (UnboundLocalError ''x''),
        \<lparr>heap = heap wp @ [identity 2], events = [Lookup [''gelsd'']]\<rparr>)"
    by (simp add: pinv_def lstsq_def lstsq_run_def Let_def log_event_def wp_def identity_def
        asarray_validated_def datacopied_def driver_names_def pick_cond_def eval_nat_numeral)
  have t: "threshold Float64 (spec_default_cutoff Float64) 3 = 3000000 / 2 ^ 52"
    by (simp add: threshold_def spec_default_cutoff_def float_mul_def round_sig_def ilog2_def
        bit_length.simps Let_def)
  have r2: "pinv2_rank svd1 (heap wp ! 0) None None = Inr 1"
    by (simp add: pinv2_rank_def pick_cond_def svd1_def default_cond_None np_max_def t)
  have rh: "pinvh_rank eigh1 (heap wp ! 0) None None True = Inr 1"
    by (simp add: pinvh_rank_def pick_cond_def eigh1_def default_cond_None np_max_def t)
  show ?thesis
    using p r2 rh by simp
qed

section \<open>solve_toeplitz: the length check\<close>

lemma length_toeplitz_vals:
  "length (toeplitz_vals c r) = (length r - 1) + length c"
  by (simp add: toeplitz_vals_def)

text \<open>
  For a right-hand side that is an array object, and \<open>c\<close> alone given, the failure
  \<open>ValueError ''incompatible dimensions''\<close> is raised exactly when the generator
  vector, the reversed conjugate of \<open>c\<close> without its first element followed by
  \<open>c\<close>, does not have \<open>2 * b.shape[0] - 1\<close> elements.
\<close>

lemma solve_toeplitz_array_rhs:
  assumes v: "asarray_validated w c0 = (w1, c1)"
      and c: "c = ravel (heap w1 ! c1)"
      and vals: "vals = rev (drop 1 (map cnj c)) @ c"
  shows "fst (solve_toeplitz levinson w (COnly c0) (Some (NdRef p)))
           = Inl (ValueError ''incompatible dimensions'' [])
         \<longleftrightarrow> int (length vals) \<noteq> 2 * int (shape (heap w1 ! p) ! 0) - 1"
  using v c vals
  by (auto simp add: solve_toeplitz_def Let_def toeplitz_vals_def split: ndarray.splits)

text \<open>
  Claim C7 fails for a right-hand side that is a list. With \<open>c\<close> of three elements
  the generator vector has five, which differs from \<open>2 * 2 - 1\<close>, and the claim has
  \<open>ValueError\<close>; with \<open>c\<close> of two elements the lengths match. In both cases the
  code raises \<open>AttributeError\<close>, since a list has no \<open>shape\<close>. For an array object
  of three elements the check does what the claim says.
\<close>

theorem solve_toeplitz_list_rhs:
  "fst (solve_toeplitz lev0 w0 (COnly (PySeq (Arr1 [2, 1, 0]))) (Some (PySeq (Arr1 [1, 2]))))
     = Inl (AttributeError ''shape'')
   \<and> fst (solve_toeplitz lev0 w0 (COnly (PySeq (Arr1 [2, 1]))) (Some (PySeq (Arr1 [1, 2]))))
     = Inl (AttributeError ''shape'')
   \<and> fst (solve_toeplitz lev0 wl (COnly (PySeq (Arr1 [2, 1]))) (Some (NdRef 1)))
     = Inl (ValueError ''incompatible dimensions'' [])
   \<and> fst (solve_toeplitz lev0 wl (COnly (PySeq (Arr1 [2, 1, 0]))) (Some (NdRef 1)))
     = Inr (Arr1 [1, 2, 4])"
  by (simp add: solve_toeplitz_def Let_def asarray_validated_def toeplitz_vals_def
      w0_def wl_def lev0_def)

end
